theory Spec2Isabelle
  imports Main "HOL-Library.Word" "HOL-Library.Monad_Syntax" "HOL-Library.Signed_Division"
begin

unbundle bit_operations_syntax

section \<open>Machine integers and the packet stream\<close>

type_synonym uint8 = "8 word"
type_synonym uint16 = "16 word"
type_synonym uint32 = "32 word"

text \<open>
  Modelled from the spec: the STREAM structure and its access macros (stream.h is not part
  of the sources at hand). Section 3 of the specification describes the buffer as a
  contiguous byte region with a base \<open>data\<close>, a cursor \<open>p\<close> and a logical end \<open>size\<close>;
  the cursor is kept as an offset from the base. The field \<open>size\<close> is called \<open>ssize\<close>
  here, since \<open>size\<close> is a constant of HOL.

  In rdp.c the macros are statements whose outcome is never tested. An access that does
  not lie inside the bytes of the buffer (before the logical end and inside the list of
  bytes) has no defined result: it is the value \<open>None\<close> of the model, and so is
  every function that performs one.
\<close>

record STREAM =
  ssize :: int
  p :: nat
  data :: "uint8 list"

definition stream_get_left :: "STREAM \<Rightarrow> int" where
  "stream_get_left s = ssize s - int (p s)"

definition stream_get_length :: "STREAM \<Rightarrow> nat" where
  "stream_get_length s = p s"

definition stream_set_pos :: "STREAM \<Rightarrow> nat \<Rightarrow> STREAM" where
  "stream_set_pos s n = s\<lparr>p := n\<rparr>"

definition stream_seek :: "STREAM \<Rightarrow> nat \<Rightarrow> STREAM" where
  "stream_seek s n = s\<lparr>p := p s + n\<rparr>"

text \<open>The region of \<open>n\<close> bytes at offset \<open>off\<close> lies inside the buffer.\<close>

definition stream_region_ok :: "STREAM \<Rightarrow> nat \<Rightarrow> nat \<Rightarrow> bool" where
  "stream_region_ok s off n \<longleftrightarrow> int (off + n) \<le> ssize s \<and> off + n \<le> length (data s)"

definition mem_read :: "uint8 list \<Rightarrow> nat \<Rightarrow> nat \<Rightarrow> uint8 list" where
  "mem_read m off n = take n (drop off m)"

definition mem_write :: "uint8 list \<Rightarrow> nat \<Rightarrow> uint8 list \<Rightarrow> uint8 list" where
  "mem_write m off bs = take off m @ bs @ drop (off + length bs) m"

definition stream_read :: "STREAM \<Rightarrow> nat \<Rightarrow> (uint8 list \<times> STREAM) option" where
  "stream_read s n =
     (if stream_region_ok s (p s) n
      then Some (mem_read (data s) (p s) n, s\<lparr>p := p s + n\<rparr>)
      else None)"

definition stream_write :: "STREAM \<Rightarrow> uint8 list \<Rightarrow> STREAM option" where
  "stream_write s bs =
     (if stream_region_ok s (p s) (length bs)
      then Some (s\<lparr>data := mem_write (data s) (p s) bs, p := p s + length bs\<rparr>)
      else None)"

text \<open>Little-endian and big-endian 16-bit and 32-bit values, as the macros compose them.\<close>

definition le16 :: "uint8 \<Rightarrow> uint8 \<Rightarrow> uint16" where
  "le16 b0 b1 = ucast b0 + push_bit 8 (ucast b1)"

definition le32 :: "uint8 \<Rightarrow> uint8 \<Rightarrow> uint8 \<Rightarrow> uint8 \<Rightarrow> uint32" where
  "le32 b0 b1 b2 b3 =
     ucast b0 + push_bit 8 (ucast b1) + push_bit 16 (ucast b2) + push_bit 24 (ucast b3)"

definition bytes_le16 :: "uint16 \<Rightarrow> uint8 list" where
  "bytes_le16 v = [ucast (v AND 0xFF), ucast (drop_bit 8 v AND 0xFF)]"

definition bytes_be16 :: "uint16 \<Rightarrow> uint8 list" where
  "bytes_be16 v = [ucast (drop_bit 8 v AND 0xFF), ucast (v AND 0xFF)]"

definition bytes_le32 :: "uint32 \<Rightarrow> uint8 list" where
  "bytes_le32 v =
     [ucast (v AND 0xFF), ucast (drop_bit 8 v AND 0xFF),
      ucast (drop_bit 16 v AND 0xFF), ucast (drop_bit 24 v AND 0xFF)]"

definition stream_read_uint8 :: "STREAM \<Rightarrow> (uint8 \<times> STREAM) option" where
  "stream_read_uint8 s =
     (case stream_read s 1 of
        Some ([b0], s') \<Rightarrow> Some (b0, s')
      | _ \<Rightarrow> None)"

definition stream_read_uint16 :: "STREAM \<Rightarrow> (uint16 \<times> STREAM) option" where
  "stream_read_uint16 s =
     (case stream_read s 2 of
        Some ([b0, b1], s') \<Rightarrow> Some (le16 b0 b1, s')
      | _ \<Rightarrow> None)"

definition stream_read_uint16_be :: "STREAM \<Rightarrow> (uint16 \<times> STREAM) option" where
  "stream_read_uint16_be s =
     (case stream_read s 2 of
        Some ([b0, b1], s') \<Rightarrow> Some (le16 b1 b0, s')
      | _ \<Rightarrow> None)"

definition stream_read_uint32 :: "STREAM \<Rightarrow> (uint32 \<times> STREAM) option" where
  "stream_read_uint32 s =
     (case stream_read s 4 of
        Some ([b0, b1, b2, b3], s') \<Rightarrow> Some (le32 b0 b1 b2 b3, s')
      | _ \<Rightarrow> None)"

definition stream_write_uint8 :: "STREAM \<Rightarrow> uint8 \<Rightarrow> STREAM option" where
  "stream_write_uint8 s v = stream_write s [v]"

definition stream_write_uint16 :: "STREAM \<Rightarrow> uint16 \<Rightarrow> STREAM option" where
  "stream_write_uint16 s v = stream_write s (bytes_le16 v)"

definition stream_write_uint16_be :: "STREAM \<Rightarrow> uint16 \<Rightarrow> STREAM option" where
  "stream_write_uint16_be s v = stream_write s (bytes_be16 v)"

definition stream_write_uint32 :: "STREAM \<Rightarrow> uint32 \<Rightarrow> STREAM option" where
  "stream_write_uint32 s v = stream_write s (bytes_le32 v)"

section \<open>Constants of the protocol\<close>

text \<open>
  Modelled from the spec: the constants that rdp.c takes from headers which are not part of
  the sources at hand (rdp.h, mcs.h, security.h, fastpath.h). The specification names
  them; MCS_BASE_CHANNEL_ID, MCS_GLOBAL_CHANNEL_ID, the two MCS choices 25 and 26, the
  lengths 6 and 12 of the share headers and the Data PDU selectors are given there with
  their values. RDP_PACKET_HEADER_MAX_LENGTH is the number of bytes in front of the
  security header: the eight bytes that \<open>rdp_read_header\<close> accounts for the
  outer header, two integers of two bytes, the priority byte and the length of two bytes.
  The flag bits are those of the protocol.
\<close>

definition RDP_PACKET_HEADER_MAX_LENGTH :: nat where
  "RDP_PACKET_HEADER_MAX_LENGTH = 15"

definition RDP_SHARE_CONTROL_HEADER_LENGTH :: nat where
  "RDP_SHARE_CONTROL_HEADER_LENGTH = 6"

definition RDP_SHARE_DATA_HEADER_LENGTH :: nat where
  "RDP_SHARE_DATA_HEADER_LENGTH = 12"

definition SEC_ENCRYPT :: "'a::len word" where "SEC_ENCRYPT = 0x0008"
definition SEC_SECURE_CHECKSUM :: "'a::len word" where "SEC_SECURE_CHECKSUM = 0x0800"
definition SEC_REDIRECTION_PKT :: "'a::len word" where "SEC_REDIRECTION_PKT = 0x0400"

definition ENCRYPTION_METHOD_FIPS :: uint32 where "ENCRYPTION_METHOD_FIPS = 0x00000010"

definition MCS_BASE_CHANNEL_ID :: uint16 where "MCS_BASE_CHANNEL_ID = 1001"
definition MCS_GLOBAL_CHANNEL_ID :: uint16 where "MCS_GLOBAL_CHANNEL_ID = 1003"

definition DomainMCSPDU_DisconnectProviderUltimatum :: int where
  "DomainMCSPDU_DisconnectProviderUltimatum = 8"
definition DomainMCSPDU_SendDataRequest :: int where
  "DomainMCSPDU_SendDataRequest = 25"
definition DomainMCSPDU_SendDataIndication :: int where
  "DomainMCSPDU_SendDataIndication = 26"

definition PDU_TYPE_DEMAND_ACTIVE :: uint16 where "PDU_TYPE_DEMAND_ACTIVE = 0x1"
definition PDU_TYPE_CONFIRM_ACTIVE :: uint16 where "PDU_TYPE_CONFIRM_ACTIVE = 0x3"
definition PDU_TYPE_DEACTIVATE_ALL :: uint16 where "PDU_TYPE_DEACTIVATE_ALL = 0x6"
definition PDU_TYPE_DATA :: uint16 where "PDU_TYPE_DATA = 0x7"
definition PDU_TYPE_SERVER_REDIRECTION :: uint16 where "PDU_TYPE_SERVER_REDIRECTION = 0xA"

definition DATA_PDU_TYPE_UPDATE :: uint8 where "DATA_PDU_TYPE_UPDATE = 0x02"
definition DATA_PDU_TYPE_CONTROL :: uint8 where "DATA_PDU_TYPE_CONTROL = 0x14"
definition DATA_PDU_TYPE_POINTER :: uint8 where "DATA_PDU_TYPE_POINTER = 0x1B"
definition DATA_PDU_TYPE_SYNCHRONIZE :: uint8 where "DATA_PDU_TYPE_SYNCHRONIZE = 0x1F"
definition DATA_PDU_TYPE_PLAY_SOUND :: uint8 where "DATA_PDU_TYPE_PLAY_SOUND = 0x22"
definition DATA_PDU_TYPE_SAVE_SESSION_INFO :: uint8 where "DATA_PDU_TYPE_SAVE_SESSION_INFO = 0x26"
definition DATA_PDU_TYPE_FONT_MAP :: uint8 where "DATA_PDU_TYPE_FONT_MAP = 0x28"
definition DATA_PDU_TYPE_SET_ERROR_INFO :: uint8 where "DATA_PDU_TYPE_SET_ERROR_INFO = 0x2F"

definition PACKET_COMPRESSED :: uint8 where "PACKET_COMPRESSED = 0x20"
definition STREAM_LOW :: uint8 where "STREAM_LOW = 0x01"
definition ERRINFO_SUCCESS :: uint32 where "ERRINFO_SUCCESS = 0"

definition FASTPATH_OUTPUT_SECURE_CHECKSUM :: uint8 where "FASTPATH_OUTPUT_SECURE_CHECKSUM = 0x1"
definition FASTPATH_OUTPUT_ENCRYPTED :: uint8 where "FASTPATH_OUTPUT_ENCRYPTED = 0x2"

section \<open>The session and its collaborators\<close>

text \<open>
  Modelled from the spec: the structures rdpSettings, rdpMcs, rdpFastPath and rdpRdp
  (rdp.h and settings.h are not part of the sources at hand), with the fields that rdp.c
  reads and writes. \<open>console\<close> holds the lines that the logging macro prints, and
  \<open>world\<close> stands for the state of everything outside rdp.c: the transport, the
  keys and counters of the security layer, the update, channel and compression modules.
\<close>

record rdpSettings =
  encryption :: bool
  encryption_method :: uint32
  server_mode :: bool
  share_id :: uint32
  pdu_source :: uint16
  frame_acknowledge :: uint32

record rdpMcs =
  user_id :: uint16

record rdpFastPath =
  encryptionFlags :: uint8

record 'w rdpRdp =
  settings :: rdpSettings
  mcs :: rdpMcs
  fastpath :: rdpFastPath
  do_crypt :: bool
  do_secure_checksum :: bool
  sec_flags :: uint32
  disconnect :: bool
  errorInfo :: uint32
  console :: "string list"
  world :: 'w

text \<open>
  The functions that rdp.c calls and that other files of the repository define are
  parameters of the model, collected in one record. A function that receives the session
  pointer receives and returns the whole session; a function that receives one module of
  it (\<open>rdp->transport\<close>, \<open>rdp->update\<close>, \<open>rdp->instance\<close>) works on \<open>world\<close>.
  A cipher or a signature receives the bytes of its region and returns the bytes it leaves
  there. Out-parameters are arguments and results, as above.
\<close>

record 'w collab =
  mcs_read_domain_mcspdu_header ::
    "STREAM \<Rightarrow> int \<Rightarrow> uint16 \<Rightarrow> (bool \<times> STREAM \<times> int \<times> uint16) option"
  mcs_write_domain_mcspdu_header :: "STREAM \<Rightarrow> int \<Rightarrow> uint16 \<Rightarrow> uint8 \<Rightarrow> STREAM option"
  per_read_enumerated :: "STREAM \<Rightarrow> uint8 \<Rightarrow> uint8 \<Rightarrow> (bool \<times> STREAM \<times> uint8) option"
  per_read_integer16 :: "STREAM \<Rightarrow> uint16 \<Rightarrow> uint16 \<Rightarrow> (bool \<times> STREAM \<times> uint16) option"
  per_write_integer16 :: "STREAM \<Rightarrow> uint16 \<Rightarrow> uint16 \<Rightarrow> STREAM option"
  per_read_length :: "STREAM \<Rightarrow> uint16 \<Rightarrow> (bool \<times> STREAM \<times> uint16) option"
  transport_send_stream_init :: "'w \<Rightarrow> nat \<Rightarrow> STREAM"
  transport_write :: "'w \<Rightarrow> STREAM \<Rightarrow> int \<times> 'w"
  security_hmac_signature :: "uint8 list \<Rightarrow> 'w rdpRdp \<Rightarrow> uint8 list \<times> 'w rdpRdp"
  security_fips_encrypt :: "uint8 list \<Rightarrow> 'w rdpRdp \<Rightarrow> uint8 list \<times> 'w rdpRdp"
  security_fips_decrypt :: "uint8 list \<Rightarrow> 'w rdpRdp \<Rightarrow> bool \<times> uint8 list \<times> 'w rdpRdp"
  security_fips_check_signature ::
    "uint8 list \<Rightarrow> uint8 list \<Rightarrow> 'w rdpRdp \<Rightarrow> bool \<times> 'w rdpRdp"
  security_salted_mac_signature ::
    "'w rdpRdp \<Rightarrow> uint8 list \<Rightarrow> bool \<Rightarrow> uint8 list \<times> 'w rdpRdp"
  security_mac_signature :: "'w rdpRdp \<Rightarrow> uint8 list \<Rightarrow> uint8 list \<times> 'w rdpRdp"
  security_encrypt :: "uint8 list \<Rightarrow> 'w rdpRdp \<Rightarrow> uint8 list \<times> 'w rdpRdp"
  security_decrypt :: "uint8 list \<Rightarrow> 'w rdpRdp \<Rightarrow> uint8 list \<times> 'w rdpRdp"
  decompress_rdp ::
    "'w rdpRdp \<Rightarrow> STREAM \<Rightarrow> int \<Rightarrow> uint8 \<Rightarrow> bool \<times> 'w rdpRdp \<times> uint32 \<times> uint32"
  mppc_history_buf :: "'w rdpRdp \<Rightarrow> uint8 list"
  update_recv :: "'w \<Rightarrow> STREAM \<Rightarrow> 'w \<times> STREAM"
  update_recv_pointer :: "'w \<Rightarrow> STREAM \<Rightarrow> 'w \<times> STREAM"
  update_recv_play_sound :: "'w \<Rightarrow> STREAM \<Rightarrow> 'w \<times> STREAM"
  rdp_recv_server_control_pdu :: "'w rdpRdp \<Rightarrow> STREAM \<Rightarrow> 'w rdpRdp \<times> STREAM"
  rdp_recv_synchronize_pdu :: "'w rdpRdp \<Rightarrow> STREAM \<Rightarrow> 'w rdpRdp \<times> STREAM"
  rdp_recv_save_session_info :: "'w rdpRdp \<Rightarrow> STREAM \<Rightarrow> 'w rdpRdp \<times> STREAM"
  rdp_recv_font_map_pdu :: "'w rdpRdp \<Rightarrow> STREAM \<Rightarrow> 'w rdpRdp \<times> STREAM"
  rdp_print_errinfo :: "uint32 \<Rightarrow> string list"
  rdp_recv_enhanced_security_redirection_packet ::
    "'w rdpRdp \<Rightarrow> STREAM \<Rightarrow> 'w rdpRdp \<times> STREAM"
  rdp_recv_deactivate_all :: "'w rdpRdp \<Rightarrow> STREAM \<Rightarrow> bool \<times> 'w rdpRdp \<times> STREAM"
  freerdp_channel_process :: "'w \<Rightarrow> STREAM \<Rightarrow> uint16 \<Rightarrow> 'w \<times> STREAM"
  fastpath_read_header_rdp :: "rdpFastPath \<Rightarrow> STREAM \<Rightarrow> uint16 \<times> rdpFastPath \<times> STREAM"
  fastpath_recv_updates :: "'w rdpRdp \<Rightarrow> STREAM \<Rightarrow> bool \<times> 'w rdpRdp \<times> STREAM"

text \<open>
  The logging macro of rdp.c prints when its level is below LLOG_LEVEL, which is 1: the
  messages of level 0 are printed, those of level 10 are not.
\<close>

definition LLOG_LEVEL :: int where
  "LLOG_LEVEL = 1"

definition LLOGLN :: "int \<Rightarrow> string \<Rightarrow> 'w rdpRdp \<Rightarrow> 'w rdpRdp" where
  "LLOGLN level msg rdp =
     (if level < LLOG_LEVEL then rdp\<lparr>console := console rdp @ [msg]\<rparr> else rdp)"

text \<open>
  The bytes of a region handed to a collaborator by pointer and length, and the bytes it
  leaves there. A region that is not inside the buffer, or whose length is negative, has
  no defined content.
\<close>

definition region_get :: "STREAM \<Rightarrow> int \<Rightarrow> int \<Rightarrow> uint8 list option" where
  "region_get s off n =
     (if 0 \<le> off \<and> 0 \<le> n \<and> stream_region_ok s (nat off) (nat n)
      then Some (mem_read (data s) (nat off) (nat n))
      else None)"

definition region_put :: "STREAM \<Rightarrow> int \<Rightarrow> uint8 list \<Rightarrow> STREAM option" where
  "region_put s off bs =
     (if 0 \<le> off \<and> stream_region_ok s (nat off) (length bs)
      then Some (s\<lparr>data := mem_write (data s) (nat off) bs\<rparr>)
      else None)"

section \<open>Security header\<close>

definition rdp_read_security_header :: "STREAM \<Rightarrow> (uint16 \<times> STREAM) option" where
  "rdp_read_security_header s =
     do {
       (flags, s1) \<leftarrow> stream_read_uint16 s;
       Some (flags, stream_seek s1 2)
     }"

definition rdp_write_security_header :: "STREAM \<Rightarrow> uint16 \<Rightarrow> STREAM option" where
  "rdp_write_security_header s flags =
     do {
       s1 \<leftarrow> stream_write_uint16 s flags;
       stream_write_uint16 s1 0
     }"

section \<open>Share Control and Share Data headers\<close>

text \<open>
  The out-parameters of the C functions are arguments and results of the model: a
  function that returns before it stores into \<open>*type\<close> gives back the value that
  was passed in.
\<close>

definition rdp_read_share_control_header ::
  "STREAM \<Rightarrow> uint16 \<Rightarrow> uint16 \<Rightarrow> uint16 \<Rightarrow> (bool \<times> STREAM \<times> uint16 \<times> uint16 \<times> uint16) option"
where
  "rdp_read_share_control_header s length0 type0 channel_id0 =
     do {
       (len, s1) \<leftarrow> stream_read_uint16 s;
       if uint len - 2 > stream_get_left s1 then Some (False, s1, len, type0, channel_id0)
       else do {
         (ty, s2) \<leftarrow> stream_read_uint16 s1;
         let ty = ty AND 0x0F;
         if len > 4 then do {
           (ch, s3) \<leftarrow> stream_read_uint16 s2;
           Some (True, s3, len, ty, ch)
         }
         else Some (True, s2, len, ty, 0)
       }
     }"

definition rdp_write_share_control_header ::
  "STREAM \<Rightarrow> uint16 \<Rightarrow> uint16 \<Rightarrow> uint16 \<Rightarrow> STREAM option"
where
  "rdp_write_share_control_header s length0 type channel_id =
     do {
       let len = length0 - of_nat RDP_PACKET_HEADER_MAX_LENGTH;
       s1 \<leftarrow> stream_write_uint16 s len;
       s2 \<leftarrow> stream_write_uint16 s1 (type OR 0x10);
       stream_write_uint16 s2 channel_id
     }"

definition rdp_read_share_data_header ::
  "STREAM \<Rightarrow> uint16 \<Rightarrow> uint8 \<Rightarrow> uint32 \<Rightarrow> uint8 \<Rightarrow> uint16 \<Rightarrow>
   (bool \<times> STREAM \<times> uint16 \<times> uint8 \<times> uint32 \<times> uint8 \<times> uint16) option"
where
  "rdp_read_share_data_header s length0 type0 share_id0 compressed_type0 compressed_len0 =
     (if stream_get_left s < 12
      then Some (False, s, length0, type0, share_id0, compressed_type0, compressed_len0)
      else do {
        (sid, s1) \<leftarrow> stream_read_uint32 s;
        let s2 = stream_seek s1 1;
        let s3 = stream_seek s2 1;
        (len, s4) \<leftarrow> stream_read_uint16 s3;
        (ty, s5) \<leftarrow> stream_read_uint8 s4;
        (cty, s6) \<leftarrow> stream_read_uint8 s5;
        (clen, s7) \<leftarrow> stream_read_uint16 s6;
        Some (True, s7, len, ty, sid, cty, clen)
      })"

definition rdp_write_share_data_header ::
  "STREAM \<Rightarrow> uint16 \<Rightarrow> uint8 \<Rightarrow> uint32 \<Rightarrow> STREAM option"
where
  "rdp_write_share_data_header s length0 type share_id0 =
     do {
       let len = length0 - of_nat RDP_PACKET_HEADER_MAX_LENGTH;
       let len = len - of_nat RDP_SHARE_CONTROL_HEADER_LENGTH;
       let len = len - of_nat RDP_SHARE_DATA_HEADER_LENGTH;
       s1 \<leftarrow> stream_write_uint32 s share_id0;
       s2 \<leftarrow> stream_write_uint8 s1 0;
       s3 \<leftarrow> stream_write_uint8 s2 STREAM_LOW;
       s4 \<leftarrow> stream_write_uint16 s3 len;
       s5 \<leftarrow> stream_write_uint8 s4 type;
       s6 \<leftarrow> stream_write_uint8 s5 0;
       stream_write_uint16 s6 0
     }"

section \<open>Building and sending a packet\<close>

definition rdp_security_stream_init :: "'w rdpRdp \<Rightarrow> STREAM \<Rightarrow> 'w rdpRdp \<times> STREAM" where
  "rdp_security_stream_init rdp s =
     (if do_crypt rdp then
        let s1 = stream_seek s 12;
            s2 = (if encryption_method (settings rdp) = ENCRYPTION_METHOD_FIPS
                  then stream_seek s1 4 else s1);
            rdp1 = rdp\<lparr>sec_flags := sec_flags rdp OR SEC_ENCRYPT\<rparr>;
            rdp2 = (if do_secure_checksum rdp1
                    then rdp1\<lparr>sec_flags := sec_flags rdp1 OR SEC_SECURE_CHECKSUM\<rparr>
                    else rdp1)
        in (rdp2, s2)
      else if sec_flags rdp \<noteq> 0 then (rdp, stream_seek s 4)
      else (rdp, s))"

definition rdp_send_stream_init :: "'w collab \<Rightarrow> 'w rdpRdp \<Rightarrow> 'w rdpRdp \<times> STREAM" where
  "rdp_send_stream_init c rdp =
     (let s = transport_send_stream_init c (world rdp) 2048;
          s = stream_seek s RDP_PACKET_HEADER_MAX_LENGTH
      in rdp_security_stream_init rdp s)"


definition rdp_data_pdu_init :: "'w collab \<Rightarrow> 'w rdpRdp \<Rightarrow> 'w rdpRdp \<times> STREAM" where
  "rdp_data_pdu_init c rdp =
     (let s = transport_send_stream_init c (world rdp) 2048;
          s = stream_seek s RDP_PACKET_HEADER_MAX_LENGTH;
          (rdp1, s) = rdp_security_stream_init rdp s;
          s = stream_seek s RDP_SHARE_CONTROL_HEADER_LENGTH;
          s = stream_seek s RDP_SHARE_DATA_HEADER_LENGTH
      in (rdp1, s))"

text \<open>
  \<open>rdp_read_header\<close>. The comparisons are those of C on \<open>int\<close>: the 16-bit length
  is promoted before 8 is subtracted. The results of the two calls of
  \<open>per_read_integer16\<close> are not tested by the source.
\<close>

definition rdp_read_header ::
  "'w collab \<Rightarrow> 'w rdpRdp \<Rightarrow> STREAM \<Rightarrow> uint16 \<Rightarrow> uint16 \<Rightarrow>
   (bool \<times> 'w rdpRdp \<times> STREAM \<times> uint16 \<times> uint16) option"
where
  "rdp_read_header c rdp s length0 channel_id0 =
     do {
       let MCSPDU = (if server_mode (settings rdp) then DomainMCSPDU_SendDataRequest
                     else DomainMCSPDU_SendDataIndication);
       (ok, s1, MCSPDU, len) \<leftarrow> mcs_read_domain_mcspdu_header c s MCSPDU length0;
       if \<not> ok then
         Some (False, LLOGLN 0 ''rdp_read_header: mcs_read_domain_mcspdu_header failed'' rdp,
               s1, len, channel_id0)
       else if uint len - 8 > stream_get_left s1 then
         Some (False, LLOGLN 0 ''rdp_read_header: parse error'' rdp, s1, len, channel_id0)
       else if MCSPDU = DomainMCSPDU_DisconnectProviderUltimatum then do {
         (ok, s2, reason) \<leftarrow> per_read_enumerated c s1 0 0;
         if \<not> ok then
           Some (False, LLOGLN 0 ''rdp_read_header: per_read_enumerated failed'' rdp,
                 s2, len, channel_id0)
         else Some (True, rdp\<lparr>disconnect := True\<rparr>, s2, len, MCS_GLOBAL_CHANNEL_ID)
       }
       else if stream_get_left s1 < 5 then
         Some (False, LLOGLN 0 ''rdp_read_header: parse error'' rdp, s1, len, channel_id0)
       else do {
         (_, s2, initiator) \<leftarrow> per_read_integer16 c s1 0 MCS_BASE_CHANNEL_ID;
         (_, s3, channel_id) \<leftarrow> per_read_integer16 c s2 channel_id0 0;
         let s4 = stream_seek s3 1;
         (ok, s5, len) \<leftarrow> per_read_length c s4 len;
         if \<not> ok then
           Some (False, LLOGLN 0 ''rdp_read_header: per_read_length failed'' rdp,
                 s5, len, channel_id)
         else if uint len > stream_get_left s5 then Some (False, rdp, s5, len, channel_id)
         else Some (True, rdp, s5, len, channel_id)
       }
     }"

text \<open>
  \<open>rdp_write_header\<close>. Its first statement adjusts the length in FIPS mode:
  \<open>body_length\<close> and \<open>pad\<close> are C integers, the remainder is the truncating one
  (\<open>smod\<close>), and the sum is stored back into the 16-bit length. The adjusted length is
  \<open>rdp_write_header_length\<close>; the rest of the function writes the header with it.
\<close>

definition rdp_write_header_length :: "'w rdpRdp \<Rightarrow> uint16 \<Rightarrow> uint16" where
  "rdp_write_header_length rdp length0 =
     (if sec_flags rdp AND SEC_ENCRYPT \<noteq> 0 \<and>
         encryption_method (settings rdp) = ENCRYPTION_METHOD_FIPS
      then
        let body_length = uint length0 - int RDP_PACKET_HEADER_MAX_LENGTH - 16;
            pad = 8 - (body_length smod 8)
        in if pad \<noteq> 8 then word_of_int (uint length0 + pad) else length0
      else length0)"

definition rdp_write_header ::
  "'w collab \<Rightarrow> 'w rdpRdp \<Rightarrow> STREAM \<Rightarrow> uint16 \<Rightarrow> uint16 \<Rightarrow> STREAM option"
where
  "rdp_write_header c rdp s length0 channel_id =
     do {
       let MCSPDU = (if server_mode (settings rdp) then DomainMCSPDU_SendDataIndication
                     else DomainMCSPDU_SendDataRequest);
       let len = rdp_write_header_length rdp length0;
       s1 \<leftarrow> mcs_write_domain_mcspdu_header c s MCSPDU len 0;
       s2 \<leftarrow> per_write_integer16 c s1 (user_id (mcs rdp)) MCS_BASE_CHANNEL_ID;
       s3 \<leftarrow> per_write_integer16 c s2 channel_id 0;
       s4 \<leftarrow> stream_write_uint8 s3 0x70;
       let len = (len - of_nat RDP_PACKET_HEADER_MAX_LENGTH) OR 0x8000;
       stream_write_uint16_be s4 len
     }"

text \<open>
  \<open>rdp_security_stream_out\<close>. \<open>data\<close> is an offset from the base of the buffer, so
  \<open>data - s->data\<close> is that offset. In the FIPS branch \<open>pad\<close> is computed on C
  integers and stored into an unsigned 32-bit variable; \<open>memset\<close> writes \<open>pad\<close>
  zero bytes at \<open>data + length\<close>.
\<close>

definition fips_pad :: "int \<Rightarrow> int" where
  "fips_pad len = (8 - (len smod 8)) AND 7"

definition rdp_security_stream_out ::
  "'w collab \<Rightarrow> 'w rdpRdp \<Rightarrow> STREAM \<Rightarrow> int \<Rightarrow> (uint32 \<times> 'w rdpRdp \<times> STREAM) option"
where
  "rdp_security_stream_out c rdp s length0 =
     (let flags = sec_flags rdp in
      if flags \<noteq> 0 then do {
        s1 \<leftarrow> rdp_write_security_header s (ucast flags);
        (pad, rdp1, s2) \<leftarrow>
          (if flags AND SEC_ENCRYPT \<noteq> 0 then
             if encryption_method (settings rdp) = ENCRYPTION_METHOD_FIPS then do {
               let data0 = int (p s1) + 12;
               let len = length0 - data0;
               s2 \<leftarrow> stream_write_uint16 s1 0x10;
               s3 \<leftarrow> stream_write_uint8 s2 0x1;
               let pad = fips_pad len;
               s4 \<leftarrow> region_put s3 (data0 + len) (replicate (nat pad) 0);
               s5 \<leftarrow> stream_write_uint8 s4 (word_of_int pad);
               body \<leftarrow> region_get s5 data0 len;
               let (sig, rdp1) = security_hmac_signature c body rdp;
               s6 \<leftarrow> region_put s5 (int (p s5)) sig;
               let s7 = stream_seek s6 8;
               plain \<leftarrow> region_get s7 data0 (len + pad);
               let (cipher, rdp2) = security_fips_encrypt c plain rdp1;
               s8 \<leftarrow> region_put s7 data0 cipher;
               Some (word_of_int pad, rdp2, s8)
             }
             else do {
               let data0 = int (p s1) + 8;
               let len = length0 - data0;
               body \<leftarrow> region_get s1 data0 len;
               let (sig, rdp1) =
                 (if flags AND SEC_SECURE_CHECKSUM \<noteq> 0
                  then security_salted_mac_signature c rdp body True
                  else security_mac_signature c rdp body);
               s2 \<leftarrow> region_put s1 (int (p s1)) sig;
               let s3 = stream_seek s2 8;
               plain \<leftarrow> region_get s3 (int (p s3)) len;
               let (cipher, rdp2) = security_encrypt c plain rdp1;
               s4 \<leftarrow> region_put s3 (int (p s3)) cipher;
               Some (0, rdp2, s4)
             }
           else Some (0, rdp, s1));
        Some (pad, rdp1\<lparr>sec_flags := 0\<rparr>, s2)
      }
      else Some (0, rdp, s))"

definition rdp_get_sec_bytes :: "'w rdpRdp \<Rightarrow> uint32" where
  "rdp_get_sec_bytes rdp =
     (if sec_flags rdp AND SEC_ENCRYPT \<noteq> 0 then
        (if encryption_method (settings rdp) = ENCRYPTION_METHOD_FIPS then 12 + 4 else 12)
      else if sec_flags rdp \<noteq> 0 then 4
      else 0)"

text \<open>
  The three senders. \<open>length\<close> is a 16-bit variable: the length of the stream is
  truncated into it, and the pad is added to it modulo \<open>2 ^ 16\<close>. The result is the
  boolean of the C function, the session and the stream handed to the transport.
\<close>

definition rdp_send ::
  "'w collab \<Rightarrow> 'w rdpRdp \<Rightarrow> STREAM \<Rightarrow> uint16 \<Rightarrow> (bool \<times> 'w rdpRdp \<times> STREAM) option"
where
  "rdp_send c rdp s channel_id =
     do {
       let len = (of_nat (stream_get_length s) :: uint16);
       let s = stream_set_pos s 0;
       s \<leftarrow> rdp_write_header c rdp s len channel_id;
       let sec_bytes = rdp_get_sec_bytes rdp;
       let sec_hold = p s;
       let s = stream_seek s (unat sec_bytes);
       let s = s\<lparr>p := sec_hold\<rparr>;
       (pad, rdp, s) \<leftarrow> rdp_security_stream_out c rdp s (uint len);
       let len = len + ucast pad;
       let s = stream_set_pos s (unat len);
       let (r, w) = transport_write c (world rdp) s;
       let rdp = rdp\<lparr>world := w\<rparr>;
       if r < 0 then Some (False, rdp, s) else Some (True, rdp, s)
     }"

definition rdp_send_pdu ::
  "'w collab \<Rightarrow> 'w rdpRdp \<Rightarrow> STREAM \<Rightarrow> uint16 \<Rightarrow> uint16 \<Rightarrow> (bool \<times> 'w rdpRdp \<times> STREAM) option"
where
  "rdp_send_pdu c rdp s type channel_id =
     do {
       let len = (of_nat (stream_get_length s) :: uint16);
       let s = stream_set_pos s 0;
       s \<leftarrow> rdp_write_header c rdp s len MCS_GLOBAL_CHANNEL_ID;
       let sec_bytes = rdp_get_sec_bytes rdp;
       let sec_hold = p s;
       let s = stream_seek s (unat sec_bytes);
       s \<leftarrow> rdp_write_share_control_header s (ucast (ucast len - sec_bytes)) type channel_id;
       let s = s\<lparr>p := sec_hold\<rparr>;
       (pad, rdp, s) \<leftarrow> rdp_security_stream_out c rdp s (uint len);
       let len = len + ucast pad;
       let s = stream_set_pos s (unat len);
       let (r, w) = transport_write c (world rdp) s;
       let rdp = rdp\<lparr>world := w\<rparr>;
       if r < 0 then Some (False, rdp, s) else Some (True, rdp, s)
     }"

definition rdp_send_data_pdu ::
  "'w collab \<Rightarrow> 'w rdpRdp \<Rightarrow> STREAM \<Rightarrow> uint8 \<Rightarrow> uint16 \<Rightarrow> (bool \<times> 'w rdpRdp \<times> STREAM) option"
where
  "rdp_send_data_pdu c rdp s type channel_id =
     do {
       let len = (of_nat (stream_get_length s) :: uint16);
       let s = stream_set_pos s 0;
       s \<leftarrow> rdp_write_header c rdp s len MCS_GLOBAL_CHANNEL_ID;
       let sec_bytes = rdp_get_sec_bytes rdp;
       let sec_hold = p s;
       let s = stream_seek s (unat sec_bytes);
       s \<leftarrow> rdp_write_share_control_header s (ucast (ucast len - sec_bytes))
              PDU_TYPE_DATA channel_id;
       s \<leftarrow> rdp_write_share_data_header s (ucast (ucast len - sec_bytes)) type
              (share_id (settings rdp));
       let s = s\<lparr>p := sec_hold\<rparr>;
       (pad, rdp, s) \<leftarrow> rdp_security_stream_out c rdp s (uint len);
       let len = len + ucast pad;
       let s = stream_set_pos s (unat len);
       let (r, w) = transport_write c (world rdp) s;
       let rdp = rdp\<lparr>world := w\<rparr>;
       if r < 0 then Some (False, rdp, s) else Some (True, rdp, s)
     }"

section \<open>Receiving a packet\<close>

definition rdp_recv_set_error_info_data_pdu ::
  "'w collab \<Rightarrow> 'w rdpRdp \<Rightarrow> STREAM \<Rightarrow> ('w rdpRdp \<times> STREAM) option"
where
  "rdp_recv_set_error_info_data_pdu c rdp s =
     do {
       (v, s1) \<leftarrow> stream_read_uint32 s;
       let rdp1 = rdp\<lparr>errorInfo := v\<rparr>;
       if errorInfo rdp1 \<noteq> ERRINFO_SUCCESS
       then Some (rdp1\<lparr>console := console rdp1 @ rdp_print_errinfo c (errorInfo rdp1)\<rparr>, s1)
       else Some (rdp1, s1)
     }"

text \<open>
  The local variables of \<open>rdp_recv_data_pdu\<close> are not initialised by the source; the
  values they hold before the Share Data header is read are an argument of the model.
\<close>

record data_pdu_locals =
  l_length :: uint16
  l_type :: uint8
  l_share_id :: uint32
  l_compressed_type :: uint8
  l_compressed_len :: uint16

text \<open>The \<open>switch\<close> over the Data PDU type, applied to \<open>comp_stream\<close>.\<close>

definition rdp_recv_data_pdu_switch ::
  "'w collab \<Rightarrow> 'w rdpRdp \<Rightarrow> STREAM \<Rightarrow> uint8 \<Rightarrow> ('w rdpRdp \<times> STREAM) option"
where
  "rdp_recv_data_pdu_switch c rdp comp_stream type =
     (if type = DATA_PDU_TYPE_UPDATE then
        let (w, s') = update_recv c (world rdp) comp_stream in Some (rdp\<lparr>world := w\<rparr>, s')
      else if type = DATA_PDU_TYPE_CONTROL then
        Some (rdp_recv_server_control_pdu c rdp comp_stream)
      else if type = DATA_PDU_TYPE_POINTER then
        let (w, s') = update_recv_pointer c (world rdp) comp_stream
        in Some (rdp\<lparr>world := w\<rparr>, s')
      else if type = DATA_PDU_TYPE_SYNCHRONIZE then
        Some (rdp_recv_synchronize_pdu c rdp comp_stream)
      else if type = DATA_PDU_TYPE_PLAY_SOUND then
        let (w, s') = update_recv_play_sound c (world rdp) comp_stream
        in Some (rdp\<lparr>world := w\<rparr>, s')
      else if type = DATA_PDU_TYPE_SAVE_SESSION_INFO then
        Some (rdp_recv_save_session_info c rdp comp_stream)
      else if type = DATA_PDU_TYPE_FONT_MAP then
        Some (rdp_recv_font_map_pdu c rdp comp_stream)
      else if type = DATA_PDU_TYPE_SET_ERROR_INFO then
        rdp_recv_set_error_info_data_pdu c rdp comp_stream
      else Some (rdp, comp_stream))"

text \<open>
  \<open>rdp_recv_data_pdu\<close> in two parts: the statements after the call of
  \<open>rdp_read_share_data_header\<close>, which use the type and the two compression fields, and
  the function itself, which does not test the result of that call.
\<close>

definition rdp_recv_data_pdu_body ::
  "'w collab \<Rightarrow> 'w rdpRdp \<Rightarrow> STREAM \<Rightarrow> uint8 \<Rightarrow> uint8 \<Rightarrow> uint16 \<Rightarrow>
   (bool \<times> 'w rdpRdp \<times> STREAM) option"
where
  "rdp_recv_data_pdu_body c rdp s type compressed_type compressed_len =
     (if compressed_type AND PACKET_COMPRESSED \<noteq> 0 then
        let (ok, rdp1, roff, rlen) =
              decompress_rdp c rdp s (uint compressed_len - 18) compressed_type
        in if ok then do {
             let comp_stream = \<lparr>ssize = uint rlen, p = 0,
                                data = drop (unat roff) (mppc_history_buf c rdp1)\<rparr>;
             (rdp2, _) \<leftarrow> rdp_recv_data_pdu_switch c rdp1 comp_stream type;
             Some (True, rdp2, s)
           }
           else Some (False, LLOGLN 0 ''decompress_rdp() failed'' rdp1, s)
      else do {
        (rdp2, s2) \<leftarrow> rdp_recv_data_pdu_switch c rdp s type;
        Some (True, rdp2, s2)
      })"

definition rdp_recv_data_pdu ::
  "'w collab \<Rightarrow> data_pdu_locals \<Rightarrow> 'w rdpRdp \<Rightarrow> STREAM \<Rightarrow> (bool \<times> 'w rdpRdp \<times> STREAM) option"
where
  "rdp_recv_data_pdu c l rdp s =
     do {
       (_, s1, len, type, sid, compressed_type, compressed_len) \<leftarrow>
         rdp_read_share_data_header s (l_length l) (l_type l) (l_share_id l)
           (l_compressed_type l) (l_compressed_len l);
       rdp_recv_data_pdu_body c rdp s1 type compressed_type compressed_len
     }"

text \<open>
  \<open>rdp_decrypt\<close>. The ciphers work in place on the region at the cursor; the FIPS
  signature is the eight bytes that the cursor skipped.
\<close>

definition rdp_decrypt ::
  "'w collab \<Rightarrow> 'w rdpRdp \<Rightarrow> STREAM \<Rightarrow> int \<Rightarrow> uint16 \<Rightarrow> (bool \<times> 'w rdpRdp \<times> STREAM) option"
where
  "rdp_decrypt c rdp0 s length0 securityFlags =
     (let rdp = LLOGLN 10 ''rdp_decrypt:'' rdp0 in
      if encryption_method (settings rdp) = ENCRYPTION_METHOD_FIPS then do {
        (len, s1) \<leftarrow> stream_read_uint16 s;
        (version, s2) \<leftarrow> stream_read_uint8 s1;
        (pad, s3) \<leftarrow> stream_read_uint8 s2;
        let sig = int (p s3);
        let s4 = stream_seek s3 8;
        let len = length0 - 12;
        cipher \<leftarrow> region_get s4 (int (p s4)) len;
        let (ok, plain, rdp1) = security_fips_decrypt c cipher rdp;
        s5 \<leftarrow> region_put s4 (int (p s4)) plain;
        if \<not> ok then Some (False, LLOGLN 0 ''FATAL: cannot decrypt'' rdp1, s5)
        else do {
          body \<leftarrow> region_get s5 (int (p s5)) (len - uint pad);
          wsig \<leftarrow> region_get s5 sig 8;
          let (ok, rdp2) = security_fips_check_signature c body wsig rdp1;
          if \<not> ok
          then Some (False, LLOGLN 0 ''FATAL: invalid packet signature FIPS'' rdp2, s5)
          else Some (True, rdp2, s5\<lparr>ssize := ssize s5 - uint pad\<rparr>)
        }
      }
      else do {
        (wmac, s1) \<leftarrow> stream_read s 8;
        let len = length0 - 8;
        cipher \<leftarrow> region_get s1 (int (p s1)) len;
        let (plain, rdp1) = security_decrypt c cipher rdp;
        s2 \<leftarrow> region_put s1 (int (p s1)) plain;
        body \<leftarrow> region_get s2 (int (p s2)) len;
        let (cmac, rdp2) =
          (if securityFlags AND SEC_SECURE_CHECKSUM \<noteq> 0
           then security_salted_mac_signature c rdp1 body False
           else security_mac_signature c rdp1 body);
        if wmac \<noteq> cmac
        then Some (True, LLOGLN 0 ''WARNING: invalid packet signature non-FIPS'' rdp2, s2)
        else Some (True, LLOGLN 10 ''rdp_decrypt: signature ok'' rdp2, s2)
      })"

text \<open>
  \<open>rdp_recv_tpkt_pdu\<close>. The \<open>switch\<close> over the Share Control type is
  \<open>rdp_recv_tpkt_pdu_switch\<close>; its boolean is false where the source returns false.
\<close>

definition rdp_recv_tpkt_pdu_switch ::
  "'w collab \<Rightarrow> data_pdu_locals \<Rightarrow> 'w rdpRdp \<Rightarrow> STREAM \<Rightarrow> uint16 \<Rightarrow>
   (bool \<times> 'w rdpRdp \<times> STREAM) option"
where
  "rdp_recv_tpkt_pdu_switch c l rdp s pduType =
     (if pduType = PDU_TYPE_DATA then do {
        (ok, rdp1, s1) \<leftarrow> rdp_recv_data_pdu c l rdp s;
        if \<not> ok then Some (False, LLOGLN 0 ''rdp_recv_data_pdu failed'' rdp1, s1)
        else Some (True, rdp1, s1)
      }
      else if pduType = PDU_TYPE_DEACTIVATE_ALL then
        Some (rdp_recv_deactivate_all c rdp s)
      else if pduType = PDU_TYPE_SERVER_REDIRECTION then
        let (rdp1, s1) = rdp_recv_enhanced_security_redirection_packet c rdp s
        in Some (True, rdp1, s1)
      else Some (True, LLOGLN 0 ''incorrect PDU type: 0x%04X'' rdp, s))"

text \<open>
  The \<open>while\<close> loop over the Share Control PDUs of one envelope. It need not end (a
  PDU that declares the length 0 leaves the cursor where it was), so it is a partial
  function: no result is \<open>None\<close>. The last argument and result lists the iterations
  in the order in which the loop ran them: the mark taken at the start, the bytes that
  were left there, the cursor after the header read (where the handler starts), the three
  values the header read left in the local variables, and \<open>settings->pdu_source\<close>
  as it is when the handler is called.
\<close>

record iteration =
  it_mark :: nat
  it_left :: int
  it_body :: nat
  it_pduLength :: uint16
  it_pduType :: uint16
  it_pduSource :: uint16
  it_recorded :: uint16

partial_function (option) rdp_recv_tpkt_pdu_loop ::
  "'w collab \<Rightarrow> data_pdu_locals \<Rightarrow> 'w rdpRdp \<Rightarrow> STREAM \<Rightarrow> uint16 \<Rightarrow> uint16 \<Rightarrow> uint16 \<Rightarrow>
   iteration list \<Rightarrow> (bool \<times> 'w rdpRdp \<times> STREAM \<times> iteration list) option"
where
  "rdp_recv_tpkt_pdu_loop c l rdp s pduLength0 pduType0 pduSource0 its =
     (if stream_get_left s > 3 then
        do {
          let nextp = p s;
          (_, s1, pduLength, pduType, pduSource) \<leftarrow>
            rdp_read_share_control_header s pduLength0 pduType0 pduSource0;
          let nextp = nextp + unat pduLength;
          let rdp1 = rdp\<lparr>settings := (settings rdp)\<lparr>pdu_source := pduSource\<rparr>\<rparr>;
          let its1 = its @ [\<lparr>it_mark = p s, it_left = stream_get_left s,
                              it_body = p s1,
                              it_pduLength = pduLength, it_pduType = pduType,
                              it_pduSource = pduSource,
                              it_recorded = pdu_source (settings rdp1)\<rparr>];
          (ok, rdp2, s2) \<leftarrow> rdp_recv_tpkt_pdu_switch c l rdp1 s1 pduType;
          if \<not> ok then Some (False, rdp2, s2, its1)
          else rdp_recv_tpkt_pdu_loop c l rdp2 (s2\<lparr>p := nextp\<rparr>)
                 pduLength pduType pduSource its1
        }
      else Some (True, rdp, s, its))"

declare rdp_recv_tpkt_pdu_loop.simps [code]





text \<open>The part of \<open>rdp_recv_tpkt_pdu\<close> after the security layer.\<close>

definition rdp_recv_tpkt_pdu_channel ::
  "'w collab \<Rightarrow> data_pdu_locals \<Rightarrow> 'w rdpRdp \<Rightarrow> STREAM \<Rightarrow> uint16 \<Rightarrow> uint16 \<Rightarrow> uint16 \<Rightarrow>
   uint16 \<Rightarrow> (bool \<times> 'w rdpRdp \<times> STREAM \<times> iteration list) option"
where
  "rdp_recv_tpkt_pdu_channel c l rdp s channelId pduLength0 pduType0 pduSource0 =
     (if channelId \<noteq> MCS_GLOBAL_CHANNEL_ID then
        let (w, s1) = freerdp_channel_process c (world rdp) s channelId
        in Some (True, rdp\<lparr>world := w\<rparr>, s1, [])
      else rdp_recv_tpkt_pdu_loop c l rdp s pduLength0 pduType0 pduSource0 [])"

definition rdp_recv_tpkt_pdu ::
  "'w collab \<Rightarrow> data_pdu_locals \<Rightarrow> 'w rdpRdp \<Rightarrow> STREAM \<Rightarrow> uint16 \<Rightarrow> uint16 \<Rightarrow> uint16 \<Rightarrow>
   uint16 \<Rightarrow> uint16 \<Rightarrow> (bool \<times> 'w rdpRdp \<times> STREAM \<times> iteration list) option"
where
  "rdp_recv_tpkt_pdu c l rdp0 s length0 channelId0 pduLength0 pduType0 pduSource0 =
     do {
       let rdp = LLOGLN 10 ''rdp_recv_tpkt_pdu:'' rdp0;
       (ok, rdp, s, len, channelId) \<leftarrow> rdp_read_header c rdp s length0 channelId0;
       if \<not> ok then Some (False, LLOGLN 0 ''Incorrect RDP header.'' rdp, s, [])
       else if disconnect rdp
       then Some (False, LLOGLN 0 ''rdp_recv_tpkt_pdu: disconnect'' rdp, s, [])
       else if encryption (settings rdp) then do {
         (securityFlags, s1) \<leftarrow> rdp_read_security_header s;
         (dec, rdp1, s2) \<leftarrow>
           (if securityFlags AND (SEC_ENCRYPT OR SEC_REDIRECTION_PKT) \<noteq> 0
            then rdp_decrypt c rdp s1 (uint len - 4) securityFlags
            else Some (True, rdp, s1));
         if \<not> dec then Some (False, LLOGLN 0 ''rdp_decrypt failed'' rdp1, s2, [])
         else if securityFlags AND SEC_REDIRECTION_PKT \<noteq> 0 then
           (if p s2 < 2 then None
            else
              let rdp2 = LLOGLN 0
                    ''rdp_recv_tpkt_pdu: got SEC_REDIRECTION_PKT securityFlags 0x%8.8x'' rdp1;
                  (rdp3, s3) = rdp_recv_enhanced_security_redirection_packet c rdp2
                                 (s2\<lparr>p := p s2 - 2\<rparr>)
              in Some (True, rdp3, s3, []))
         else rdp_recv_tpkt_pdu_channel c l rdp1 s2 channelId pduLength0 pduType0 pduSource0
       }
       else rdp_recv_tpkt_pdu_channel c l rdp s channelId pduLength0 pduType0 pduSource0
     }"

definition rdp_recv_fastpath_pdu ::
  "'w collab \<Rightarrow> 'w rdpRdp \<Rightarrow> STREAM \<Rightarrow> (bool \<times> 'w rdpRdp \<times> STREAM) option"
where
  "rdp_recv_fastpath_pdu c rdp0 s =
     (let rdp = LLOGLN 10 ''rdp_recv_fastpath_pdu:'' rdp0;
          (len, fp, s1) = fastpath_read_header_rdp c (fastpath rdp) s;
          rdp1 = rdp\<lparr>fastpath := fp\<rparr>
      in if len = 0 \<or> uint len > stream_get_left s1 then
           Some (False,
             LLOGLN 0 ''rdp_recv_fastpath_pdu: incorrect FastPath PDU header length %d'' rdp1,
             s1)
         else do {
           (rdp2, s2) \<leftarrow>
             (if encryptionFlags (fastpath rdp1) AND FASTPATH_OUTPUT_ENCRYPTED \<noteq> 0 then do {
                let securityFlags =
                  (if encryptionFlags (fastpath rdp1) AND FASTPATH_OUTPUT_SECURE_CHECKSUM \<noteq> 0
                   then SEC_SECURE_CHECKSUM else 0);
                (_, rdp2, s2) \<leftarrow> rdp_decrypt c rdp1 s1 (uint len) securityFlags;
                Some (rdp2, s2)
              }
              else Some (rdp1, s1));
           Some (fastpath_recv_updates c rdp2 s2)
         })"

section \<open>Frame acknowledge\<close>

text \<open>
  \<open>rdp_send_frame_ack\<close>. The result of \<open>rdp_send_data_pdu\<close> is not tested; the
  stream handed to the transport is returned beside the session, and is \<open>None\<close> when
  nothing is sent.
\<close>

definition rdp_send_frame_ack ::
  "'w collab \<Rightarrow> 'w rdpRdp \<Rightarrow> int \<Rightarrow> (int \<times> 'w rdpRdp \<times> STREAM option) option"
where
  "rdp_send_frame_ack c rdp frame =
     (if frame_acknowledge (settings rdp) = 0 then Some (0, rdp, None)
      else do {
        let (rdp1, s) = rdp_data_pdu_init c rdp;
        s1 \<leftarrow> stream_write_uint32 s (word_of_int frame);
        (_, rdp2, s2) \<leftarrow> rdp_send_data_pdu c rdp1 s1 56 (user_id (mcs rdp1));
        Some (0, rdp2, Some s2)
      })"

section \<open>The MCS and PER helpers, and collaborators to run the model\<close>

text \<open>
  Modelled from the spec: the helpers of mcs.c and per.c that rdp.c calls (neither file is
  part of the sources at hand). The glossary gives the TPKT framing as
  \<open>0x03 0x00 len_hi len_lo\<close>; section 4.2 gives the MCS choice as the first byte of the
  domain PDU (\<open>0x64\<close> for SendDataRequest, 25 shifted left by two), the integers of 16
  bits as big-endian values offset by their minimum, and the length as one byte, or two
  bytes with the high bit of the first set; \<open>rdp_read_header\<close> accounts eight bytes for
  the outer header, so three bytes stand between the TPKT header and the choice (the data
  header of X.224). The decode path recognises DisconnectProviderUltimatum besides the
  expected choice, and reads the enumerated reason as one byte.
\<close>

definition spec_mcs_write_domain_mcspdu_header ::
  "STREAM \<Rightarrow> int \<Rightarrow> uint16 \<Rightarrow> uint8 \<Rightarrow> STREAM option"
where
  "spec_mcs_write_domain_mcspdu_header s domainMCSPDU length0 options =
     do {
       s1 \<leftarrow> stream_write s [0x03, 0x00];
       s2 \<leftarrow> stream_write_uint16_be s1 length0;
       s3 \<leftarrow> stream_write s2 [0x02, 0xF0, 0x80];
       stream_write_uint8 s3 (push_bit 2 (word_of_int domainMCSPDU) OR options)
     }"

definition spec_mcs_read_domain_mcspdu_header ::
  "STREAM \<Rightarrow> int \<Rightarrow> uint16 \<Rightarrow> (bool \<times> STREAM \<times> int \<times> uint16) option"
where
  "spec_mcs_read_domain_mcspdu_header s domainMCSPDU length0 =
     do {
       (_, s1) \<leftarrow> stream_read s 2;
       (len, s2) \<leftarrow> stream_read_uint16_be s1;
       (_, s3) \<leftarrow> stream_read s2 3;
       (choice, s4) \<leftarrow> stream_read_uint8 s3;
       let MCSPDU = uint (drop_bit 2 choice);
       Some (MCSPDU = domainMCSPDU \<or> MCSPDU = DomainMCSPDU_DisconnectProviderUltimatum,
             s4, MCSPDU, len)
     }"

definition spec_per_read_enumerated ::
  "STREAM \<Rightarrow> uint8 \<Rightarrow> uint8 \<Rightarrow> (bool \<times> STREAM \<times> uint8) option"
where
  "spec_per_read_enumerated s enumerated0 count =
     do {
       (e, s1) \<leftarrow> stream_read_uint8 s;
       Some (True, s1, e)
     }"

definition spec_per_read_integer16 ::
  "STREAM \<Rightarrow> uint16 \<Rightarrow> uint16 \<Rightarrow> (bool \<times> STREAM \<times> uint16) option"
where
  "spec_per_read_integer16 s integer0 minv =
     do {
       (v, s1) \<leftarrow> stream_read_uint16_be s;
       if uint v + uint minv > 0xFFFF then Some (False, s1, v)
       else Some (True, s1, v + minv)
     }"

definition spec_per_write_integer16 :: "STREAM \<Rightarrow> uint16 \<Rightarrow> uint16 \<Rightarrow> STREAM option" where
  "spec_per_write_integer16 s v minv = stream_write_uint16_be s (v - minv)"

definition spec_per_read_length :: "STREAM \<Rightarrow> uint16 \<Rightarrow> (bool \<times> STREAM \<times> uint16) option" where
  "spec_per_read_length s length0 =
     do {
       (b, s1) \<leftarrow> stream_read_uint8 s;
       if b AND 0x80 \<noteq> 0 then do {
         (b2, s2) \<leftarrow> stream_read_uint8 s1;
         Some (True, s2, push_bit 8 (ucast (b AND 0x7F)) + ucast b2)
       }
       else Some (True, s1, ucast b)
     }"

text \<open>The collaborators of \<open>c\<close> that frame a packet are the helpers above.\<close>

definition spec_framing :: "'w collab \<Rightarrow> bool" where
  "spec_framing c \<longleftrightarrow>
     mcs_read_domain_mcspdu_header c = spec_mcs_read_domain_mcspdu_header \<and>
     mcs_write_domain_mcspdu_header c = spec_mcs_write_domain_mcspdu_header \<and>
     per_read_enumerated c = spec_per_read_enumerated \<and>
     per_read_integer16 c = spec_per_read_integer16 \<and>
     per_write_integer16 c = spec_per_write_integer16 \<and>
     per_read_length c = spec_per_read_length"

text \<open>
  A world to run the model in: the frames handed to the transport, and the handlers that
  were called, each with the cursor it found. Its ciphers are involutions on bytes and its
  signatures are constant; they stand for the security layer only where a concrete run is
  needed.
\<close>

record demo_world =
  wire :: "uint8 list list"
  calls :: "(string \<times> nat) list"

definition demo_call :: "string \<Rightarrow> demo_world rdpRdp \<Rightarrow> STREAM \<Rightarrow> demo_world rdpRdp" where
  "demo_call name rdp s = rdp\<lparr>world := (world rdp)\<lparr>calls := calls (world rdp) @ [(name, p s)]\<rparr>\<rparr>"

definition demo :: "demo_world collab" where
  "demo = \<lparr>
     mcs_read_domain_mcspdu_header = spec_mcs_read_domain_mcspdu_header,
     mcs_write_domain_mcspdu_header = spec_mcs_write_domain_mcspdu_header,
     per_read_enumerated = spec_per_read_enumerated,
     per_read_integer16 = spec_per_read_integer16,
     per_write_integer16 = spec_per_write_integer16,
     per_read_length = spec_per_read_length,
     transport_send_stream_init = (\<lambda>w n. \<lparr>ssize = int n, p = 0, data = replicate n 0\<rparr>),
     transport_write = (\<lambda>w s. (int (p s), w\<lparr>wire := wire w @ [take (p s) (data s)]\<rparr>)),
     security_hmac_signature = (\<lambda>bs rdp. (replicate 8 0xAA, rdp)),
     security_fips_encrypt = (\<lambda>bs rdp. (map (\<lambda>b. b XOR 0x55) bs, rdp)),
     security_fips_decrypt = (\<lambda>bs rdp. (True, map (\<lambda>b. b XOR 0x55) bs, rdp)),
     security_fips_check_signature = (\<lambda>bs sig rdp. (sig = replicate 8 0xAA, rdp)),
     security_salted_mac_signature = (\<lambda>rdp bs e. (replicate 8 0xBB, rdp)),
     security_mac_signature = (\<lambda>rdp bs. (replicate 8 0xCC, rdp)),
     security_encrypt = (\<lambda>bs rdp. (map (\<lambda>b. b XOR 0x33) bs, rdp)),
     security_decrypt = (\<lambda>bs rdp. (map (\<lambda>b. b XOR 0x33) bs, rdp)),
     decompress_rdp = (\<lambda>rdp s n t. (False, rdp, 0, 0)),
     mppc_history_buf = (\<lambda>rdp. []),
     update_recv = (\<lambda>w s. (w\<lparr>calls := calls w @ [(''update_recv'', p s)]\<rparr>, s)),
     update_recv_pointer =
       (\<lambda>w s. (w\<lparr>calls := calls w @ [(''update_recv_pointer'', p s)]\<rparr>, s)),
     update_recv_play_sound =
       (\<lambda>w s. (w\<lparr>calls := calls w @ [(''update_recv_play_sound'', p s)]\<rparr>, s)),
     rdp_recv_server_control_pdu =
       (\<lambda>rdp s. (demo_call ''rdp_recv_server_control_pdu'' rdp s, s)),
     rdp_recv_synchronize_pdu = (\<lambda>rdp s. (demo_call ''rdp_recv_synchronize_pdu'' rdp s, s)),
     rdp_recv_save_session_info = (\<lambda>rdp s. (demo_call ''rdp_recv_save_session_info'' rdp s, s)),
     rdp_recv_font_map_pdu = (\<lambda>rdp s. (demo_call ''rdp_recv_font_map_pdu'' rdp s, s)),
     rdp_print_errinfo = (\<lambda>code. [''errinfo'']),
     rdp_recv_enhanced_security_redirection_packet =
       (\<lambda>rdp s. (demo_call ''rdp_recv_enhanced_security_redirection_packet'' rdp s, s)),
     rdp_recv_deactivate_all = (\<lambda>rdp s. (True, demo_call ''rdp_recv_deactivate_all'' rdp s, s)),
     freerdp_channel_process =
       (\<lambda>w s ch. (w\<lparr>calls := calls w @ [(''freerdp_channel_process'', p s)]\<rparr>, s)),
     fastpath_read_header_rdp =
       (\<lambda>fp s. case stream_read s 2 of
                 Some ([b0, b1], s1) \<Rightarrow> (ucast b1, fp\<lparr>encryptionFlags := drop_bit 6 b0\<rparr>, s1)
               | _ \<Rightarrow> (0, fp, s)),
     fastpath_recv_updates = (\<lambda>rdp s. (True, demo_call ''fastpath_recv_updates'' rdp s, s))
   \<rparr>"

definition demo_settings :: rdpSettings where
  "demo_settings = \<lparr>encryption = False, encryption_method = 0, server_mode = False,
     share_id = 0xDEADBEEF, pdu_source = 0, frame_acknowledge = 0\<rparr>"

definition demo_rdp :: "demo_world rdpRdp" where
  "demo_rdp = \<lparr>settings = demo_settings, mcs = \<lparr>user_id = 1007\<rparr>,
     fastpath = \<lparr>encryptionFlags = 0\<rparr>, do_crypt = False, do_secure_checksum = False,
     sec_flags = 0, disconnect = False, errorInfo = 0, console = [],
     world = \<lparr>wire = [], calls = []\<rparr>\<rparr>"

definition demo_sent :: "uint8 list \<Rightarrow> demo_world rdpRdp" where
  "demo_sent frame = demo_rdp\<lparr>world := \<lparr>wire = [frame], calls = []\<rparr>\<rparr>"

definition demo_locals :: data_pdu_locals where
  "demo_locals = \<lparr>l_length = 0x1234, l_type = 0x02, l_share_id = 0x55AA55AA,
     l_compressed_type = 0x00, l_compressed_len = 0x4321\<rparr>"

text \<open>
  A session in FIPS mode, a collaborator whose FIPS cipher reports failure, and one
  encrypted frame for each of the two receive paths.
\<close>

definition demo_fips_fail :: "demo_world collab" where
  "demo_fips_fail = demo\<lparr>security_fips_decrypt := (\<lambda>bs rdp. (False, bs, rdp))\<rparr>"

definition demo_fips_rdp :: "demo_world rdpRdp" where
  "demo_fips_rdp = demo_rdp\<lparr>settings := demo_settings\<lparr>encryption := True,
     encryption_method := ENCRYPTION_METHOD_FIPS\<rparr>\<rparr>"

definition fips_tpkt_frame :: "uint8 list" where
  "fips_tpkt_frame =
     [3, 0, 0, 39, 2, 0xF0, 0x80, 0x68, 0, 6, 0x03, 0xEB, 0x70, 0x80, 24,
      0x08, 0, 0, 0, 0x10, 0, 1, 0, 0xAA, 0xAA, 0xAA, 0xAA, 0xAA, 0xAA, 0xAA, 0xAA,
      1, 2, 3, 4, 5, 6, 7, 8]"

definition fips_fastpath_frame :: "uint8 list" where
  "fips_fastpath_frame =
     [0x80, 20, 0x10, 0, 1, 0, 0xAA, 0xAA, 0xAA, 0xAA, 0xAA, 0xAA, 0xAA, 0xAA,
      1, 2, 3, 4, 5, 6, 7, 8]"

text \<open>
  The bytes of a frame as the transport takes them (the buffer up to the cursor), the stream
  in which the peer receives them, and a peer in the opposite MCS direction.
\<close>

definition sent_frame :: "STREAM \<Rightarrow> uint8 list" where
  "sent_frame s = take (p s) (data s)"



text \<open>
  The headers of a frame without a security header, written after the words of the
  specification (sections 4.2 and 4.4 and the first scenario of section 8), to compare
  with what the senders of rdp.c write.
\<close>

definition wire_mcs_header :: "bool \<Rightarrow> uint16 \<Rightarrow> uint16 \<Rightarrow> uint16 \<Rightarrow> uint8 list" where
  "wire_mcs_header server len initiator channel_id =
     [0x03, 0x00] @ bytes_be16 len @
     [0x02, 0xF0, 0x80, (if server then 0x68 else 0x64)] @
     bytes_be16 (initiator - 1001) @ bytes_be16 channel_id @ [0x70] @
     bytes_be16 ((len - 15) OR 0x8000)"

definition wire_share_control_header :: "uint16 \<Rightarrow> uint16 \<Rightarrow> uint16 \<Rightarrow> uint8 list" where
  "wire_share_control_header totalLength type source =
     bytes_le16 totalLength @ bytes_le16 (type OR 0x10) @ bytes_le16 source"

definition wire_share_data_header :: "uint32 \<Rightarrow> uint16 \<Rightarrow> uint8 \<Rightarrow> uint8 list" where
  "wire_share_data_header shareId uncompressedLength type2 =
     bytes_le32 shareId @ [0x00, 0x01] @ bytes_le16 uncompressedLength @
     [type2, 0x00] @ bytes_le16 0"




text \<open>A session that acknowledges frames, and the frame it sends for 0x01020304.\<close>

definition demo_ack_rdp :: "demo_world rdpRdp" where
  "demo_ack_rdp = demo_rdp\<lparr>settings := demo_settings\<lparr>frame_acknowledge := 1\<rparr>\<rparr>"

definition ack_frame :: "uint8 list" where
  "ack_frame =
     [3, 0, 0, 37, 2, 240, 128, 100, 0, 6, 3, 235, 112, 128, 22,
      22, 0, 23, 0, 239, 3,
      239, 190, 173, 222, 0, 1, 4, 0, 56, 0, 0, 0,
      4, 3, 2, 1]"









section \<open>Properties\<close>

subsection \<open>The short Share Control header\<close>

lemma stream_read_uint16_bytes:
  assumes "stream_region_ok s (p s) 2" and "mem_read (data s) (p s) 2 = [b0, b1]"
  shows "stream_read_uint16 s = Some (le16 b0 b1, s\<lparr>p := p s + 2\<rparr>)"
  using assms by (simp add: stream_read_uint16_def stream_read_def)

text \<open>
  C6. A Share Control header of four bytes \<open>b0 b1 b2 b3\<close> at the cursor whose declared
  totalLength is at most 4 is read with success: the length is the declared one, the type
  is the low four bits of the pduType field, the channel is 0, and the cursor moves by
  exactly four bytes (no pduSource is read).
\<close>

theorem short_share_control_header:
  assumes "stream_region_ok s (p s) 4"
    and "mem_read (data s) (p s) 4 = [b0, b1, b2, b3]"
    and "le16 b0 b1 \<le> 4"
  shows "rdp_read_share_control_header s length0 type0 channel_id0 =
           Some (True, s\<lparr>p := p s + 4\<rparr>, le16 b0 b1, le16 b2 b3 AND 0x0F, 0)"
proof -
  have len_ok: "length (data s) \<ge> p s + 4" and sz: "int (p s + 4) \<le> ssize s"
    using assms(1) by (simp_all add: stream_region_ok_def)
  have m2: "mem_read (data s) (p s) 2 = [b0, b1]"
  proof -
    have "mem_read (data s) (p s) 2 = take 2 (mem_read (data s) (p s) 4)"
      by (simp add: mem_read_def)
    then show ?thesis by (simp add: assms(2))
  qed
  have m4: "mem_read (data s) (p s + 2) 2 = [b2, b3]"
  proof -
    have "mem_read (data s) (p s + 2) 2 = drop 2 (mem_read (data s) (p s) 4)"
      by (simp add: mem_read_def drop_take add.commute)
    then show ?thesis by (simp add: assms(2))
  qed
  have r1: "stream_read_uint16 s = Some (le16 b0 b1, s\<lparr>p := p s + 2\<rparr>)"
    using len_ok sz m2 by (intro stream_read_uint16_bytes) (simp_all add: stream_region_ok_def)
  have r2: "stream_read_uint16 (s\<lparr>p := p s + 2\<rparr>) = Some (le16 b2 b3, s\<lparr>p := p s + 4\<rparr>)"
    using len_ok sz m4 stream_read_uint16_bytes [of "s\<lparr>p := p s + 2\<rparr>" b2 b3]
    by (simp add: stream_region_ok_def)
  have small: "uint (le16 b0 b1) \<le> 4"
    using assms(3) by (simp add: word_le_def)
  have left: "\<not> uint (le16 b0 b1) - 2 > stream_get_left (s\<lparr>p := p s + 2\<rparr>)"
    using small sz by (simp add: stream_get_left_def)
  have notgt: "\<not> le16 b0 b1 > 4"
    using assms(3) by simp
  show ?thesis
    unfolding rdp_read_share_control_header_def
    using r1 r2 left notgt by simp
qed

theorem short_share_control_header_witness:
  "rdp_read_share_control_header \<lparr>ssize = 4, p = 0, data = [0x04, 0x00, 0x16, 0x00]\<rparr> 7 7 7 =
     Some (True, \<lparr>ssize = 4, p = 4, data = [0x04, 0x00, 0x16, 0x00]\<rparr>, 4, 6, 0)"
proof -
  have "le16 0x04 0x00 = 4" "le16 0x16 0x00 AND 0x0F = 6"
    by (simp_all add: le16_def)
  then show ?thesis
    using short_share_control_header
      [of "\<lparr>ssize = 4, p = 0, data = [0x04, 0x00, 0x16, 0x00]\<rparr>" "0x04" "0x00" "0x16" "0x00" 7 7 7]
    by (simp add: stream_region_ok_def mem_read_def)
qed

subsection \<open>The staged security flags\<close>

lemma rdp_security_stream_out_sec_flags:
  "rdp_security_stream_out c rdp s n = Some (pad, rdp', s') \<Longrightarrow> sec_flags rdp' = 0"
  by (auto simp: rdp_security_stream_out_def Let_def split: if_splits bind_splits prod.splits)

lemma rdp_send_sec_flags:
  "rdp_send c rdp s ch = Some (ok, rdp', s') \<Longrightarrow> sec_flags rdp' = 0"
  by (auto simp: rdp_send_def Let_def split: if_splits bind_splits prod.splits
      dest: rdp_security_stream_out_sec_flags)

lemma rdp_send_pdu_sec_flags:
  "rdp_send_pdu c rdp s ty ch = Some (ok, rdp', s') \<Longrightarrow> sec_flags rdp' = 0"
  by (auto simp: rdp_send_pdu_def Let_def split: if_splits bind_splits prod.splits
      dest: rdp_security_stream_out_sec_flags)

lemma rdp_send_data_pdu_sec_flags:
  "rdp_send_data_pdu c rdp s ty ch = Some (ok, rdp', s') \<Longrightarrow> sec_flags rdp' = 0"
  by (auto simp: rdp_send_data_pdu_def Let_def split: if_splits bind_splits prod.splits
      dest: rdp_security_stream_out_sec_flags)

text \<open>
  C3. When \<open>rdp_send\<close>, \<open>rdp_send_pdu\<close> or \<open>rdp_send_data_pdu\<close> returns success, the
  staged security flags of the session it leaves are zero, whatever they were when the
  send began.
\<close>

theorem sec_flags_cleared_by_send:
  "(rdp_send c rdp s channel_id = Some (True, rdp1, s1) \<longrightarrow> sec_flags rdp1 = 0) \<and>
   (rdp_send_pdu c rdp s type channel_id = Some (True, rdp2, s2) \<longrightarrow> sec_flags rdp2 = 0) \<and>
   (rdp_send_data_pdu c rdp s type2 channel_id = Some (True, rdp3, s3) \<longrightarrow>
      sec_flags rdp3 = 0)"
  by (auto dest: rdp_send_sec_flags rdp_send_pdu_sec_flags rdp_send_data_pdu_sec_flags)

theorem sec_flags_cleared_by_send_witness:
  "sec_flags (demo_rdp\<lparr>sec_flags := 0x40\<rparr>) \<noteq> 0 \<and>
   rdp_send_data_pdu demo (demo_rdp\<lparr>sec_flags := 0x40\<rparr>)
     \<lparr>ssize = 40, p = 39, data = replicate 37 0 @ [1, 2, 0]\<rparr> 0x1C 1007 =
   Some (True,
     demo_sent [3, 0, 0, 39, 2, 240, 128, 100, 0, 6, 3, 235, 112, 128, 24, 64,
             0, 0, 0, 20, 0, 23, 0, 239, 3, 239, 190, 173, 222, 0, 1, 2, 0,
             28, 0, 0, 0, 1, 2],
     \<lparr>ssize = 40, p = 39, data =
        [3, 0, 0, 39, 2, 240, 128, 100, 0, 6, 3, 235, 112, 128, 24, 64, 0,
         0, 0, 20, 0, 23, 0, 239, 3, 239, 190, 173, 222, 0, 1, 2, 0, 28, 0,
         0, 0, 1, 2, 0]\<rparr>) \<and>
   sec_flags (demo_sent [3, 0, 0, 39, 2, 240, 128, 100, 0, 6, 3, 235, 112, 128, 24, 64,
             0, 0, 0, 20, 0, 23, 0, 239, 3, 239, 190, 173, 222, 0, 1, 2, 0,
             28, 0, 0, 0, 1, 2]) = 0"
proof -
  have run: "rdp_send_data_pdu demo (demo_rdp\<lparr>sec_flags := 0x40\<rparr>)
     \<lparr>ssize = 40, p = 39, data = replicate 37 0 @ [1, 2, 0]\<rparr> 0x1C 1007 =
   Some (True,
     demo_sent [3, 0, 0, 39, 2, 240, 128, 100, 0, 6, 3, 235, 112, 128, 24, 64,
             0, 0, 0, 20, 0, 23, 0, 239, 3, 239, 190, 173, 222, 0, 1, 2, 0,
             28, 0, 0, 0, 1, 2],
     \<lparr>ssize = 40, p = 39, data =
        [3, 0, 0, 39, 2, 240, 128, 100, 0, 6, 3, 235, 112, 128, 24, 64, 0,
         0, 0, 20, 0, 23, 0, 239, 3, 239, 190, 173, 222, 0, 1, 2, 0, 28, 0,
         0, 0, 1, 2, 0]\<rparr>)"
    by code_simp
  have nz: "sec_flags (demo_rdp\<lparr>sec_flags := 0x40\<rparr>) \<noteq> 0" by simp
  from sec_flags_cleared_by_send [of demo "demo_rdp\<lparr>sec_flags := 0x40\<rparr>"
      "\<lparr>ssize = 40, p = 39, data = replicate 37 0 @ [1, 2, 0]\<rparr>" 1007 _ _ _ _ _ "0x1C"] run nz
  show ?thesis by blast
qed

subsection \<open>The Share Data header that is not there\<close>

lemma short_share_data_header:
  "stream_get_left s < 12 \<Longrightarrow>
   rdp_read_share_data_header s a b c d e = Some (False, s, a, b, c, d, e)"
  by (simp add: rdp_read_share_data_header_def)

text \<open>
  C9. With fewer than 12 bytes left, \<open>rdp_read_share_data_header\<close> reports failure and
  reads nothing; \<open>rdp_recv_data_pdu\<close> goes on all the same, with the values its local
  variables held before the call: it runs the rest of its body on them, and where their
  compression bit is clear it dispatches on the unread type and returns success.
\<close>

theorem data_pdu_header_failure_ignored:
  assumes "stream_get_left s < 12"
  shows "rdp_read_share_data_header s (l_length l) (l_type l) (l_share_id l)
           (l_compressed_type l) (l_compressed_len l) =
         Some (False, s, l_length l, l_type l, l_share_id l, l_compressed_type l,
               l_compressed_len l) \<and>
         rdp_recv_data_pdu c l rdp s =
           rdp_recv_data_pdu_body c rdp s (l_type l) (l_compressed_type l)
             (l_compressed_len l) \<and>
         (l_compressed_type l AND PACKET_COMPRESSED = 0 \<longrightarrow>
            rdp_recv_data_pdu c l rdp s =
              (case rdp_recv_data_pdu_switch c rdp s (l_type l) of
                 None \<Rightarrow> None
               | Some (rdp2, s2) \<Rightarrow> Some (True, rdp2, s2)))"
  using assms
  by (simp add: rdp_recv_data_pdu_def rdp_recv_data_pdu_body_def short_share_data_header
      split: option.splits)

theorem data_pdu_header_failure_ignored_witness:
  "stream_get_left \<lparr>ssize = 5, p = 2, data = [1, 2, 3, 4, 5]\<rparr> < 12 \<and>
   rdp_recv_data_pdu demo demo_locals demo_rdp \<lparr>ssize = 5, p = 2, data = [1, 2, 3, 4, 5]\<rparr> =
     Some (True, demo_rdp\<lparr>world := \<lparr>wire = [], calls = [(''update_recv'', 2)]\<rparr>\<rparr>,
           \<lparr>ssize = 5, p = 2, data = [1, 2, 3, 4, 5]\<rparr>)"
proof -
  have left: "stream_get_left \<lparr>ssize = 5, p = 2, data = [1, 2, 3, 4, 5]\<rparr> < 12"
    by (simp add: stream_get_left_def)
  have sw: "rdp_recv_data_pdu_switch demo demo_rdp
      \<lparr>ssize = 5, p = 2, data = [1, 2, 3, 4, 5]\<rparr> (l_type demo_locals) =
     Some (demo_rdp\<lparr>world := \<lparr>wire = [], calls = [(''update_recv'', 2)]\<rparr>\<rparr>,
           \<lparr>ssize = 5, p = 2, data = [1, 2, 3, 4, 5]\<rparr>)"
    by code_simp
  have nc: "l_compressed_type demo_locals AND PACKET_COMPRESSED = 0"
    by (simp add: demo_locals_def PACKET_COMPRESSED_def)
  have run: "rdp_recv_data_pdu demo demo_locals demo_rdp
       \<lparr>ssize = 5, p = 2, data = [1, 2, 3, 4, 5]\<rparr> =
     Some (True, demo_rdp\<lparr>world := \<lparr>wire = [], calls = [(''update_recv'', 2)]\<rparr>\<rparr>,
           \<lparr>ssize = 5, p = 2, data = [1, 2, 3, 4, 5]\<rparr>)"
  proof -
    note t = data_pdu_header_failure_ignored [OF left, of demo_locals demo demo_rdp]
    from t nc have "rdp_recv_data_pdu demo demo_locals demo_rdp
        \<lparr>ssize = 5, p = 2, data = [1, 2, 3, 4, 5]\<rparr> =
      (case rdp_recv_data_pdu_switch demo demo_rdp
          \<lparr>ssize = 5, p = 2, data = [1, 2, 3, 4, 5]\<rparr> (l_type demo_locals) of
         None \<Rightarrow> None
       | Some (rdp2, s2) \<Rightarrow> Some (True, rdp2, s2))"
      by blast
    then show ?thesis unfolding sw by simp
  qed
  from left run show ?thesis by (rule conjI)
qed

subsection \<open>Disconnect Provider Ultimatum\<close>

text \<open>
  C8. When the MCS header of a frame is read as DisconnectProviderUltimatum, its declared
  length does not exceed the bytes that are left, and the enumerated reason is read,
  \<open>rdp_read_header\<close> returns success with the disconnect latch set and the channel
  1003 (MCS_GLOBAL_CHANNEL_ID); \<open>rdp_recv_tpkt_pdu\<close> then returns failure with the
  stream as the header read left it: it ran no iteration and called no handler.
\<close>

theorem disconnect_provider_ultimatum:
  assumes "mcs_read_domain_mcspdu_header c s
             (if server_mode (settings rdp) then DomainMCSPDU_SendDataRequest
              else DomainMCSPDU_SendDataIndication) length0 =
           Some (True, s1, DomainMCSPDU_DisconnectProviderUltimatum, len)"
    and "uint len - 8 \<le> stream_get_left s1"
    and "per_read_enumerated c s1 0 0 = Some (True, s2, reason)"
  shows "rdp_read_header c rdp s length0 channel_id0 =
           Some (True, rdp\<lparr>disconnect := True\<rparr>, s2, len, 1003) \<and>
         MCS_GLOBAL_CHANNEL_ID = 1003 \<and>
         rdp_recv_tpkt_pdu c l rdp s length0 channel_id0 pduLength0 pduType0 pduSource0 =
           Some (False,
             rdp\<lparr>disconnect := True,
                  console := console rdp @ [''rdp_recv_tpkt_pdu: disconnect'']\<rparr>,
             s2, [])"
proof -
  have h: "rdp_read_header c rdp s length0 channel_id0 =
           Some (True, rdp\<lparr>disconnect := True\<rparr>, s2, len, 1003)"
    using assms
    by (simp add: rdp_read_header_def Let_def MCS_GLOBAL_CHANNEL_ID_def)
  have "rdp_recv_tpkt_pdu c l rdp s length0 channel_id0 pduLength0 pduType0 pduSource0 =
           Some (False,
             rdp\<lparr>disconnect := True,
                  console := console rdp @ [''rdp_recv_tpkt_pdu: disconnect'']\<rparr>,
             s2, [])"
    using h by (simp add: rdp_recv_tpkt_pdu_def LLOGLN_def LLOG_LEVEL_def)
  with h show ?thesis by (simp add: MCS_GLOBAL_CHANNEL_ID_def)
qed

theorem disconnect_provider_ultimatum_witness:
  "rdp_read_header demo demo_rdp
     \<lparr>ssize = 12, p = 0, data = [3, 0, 0, 12, 2, 0xF0, 0x80, 0x20, 0x00, 1, 2, 3]\<rparr> 0 0 =
     Some (True, demo_rdp\<lparr>disconnect := True\<rparr>,
       \<lparr>ssize = 12, p = 9, data = [3, 0, 0, 12, 2, 0xF0, 0x80, 0x20, 0x00, 1, 2, 3]\<rparr>,
       12, 1003) \<and>
   rdp_recv_tpkt_pdu demo demo_locals demo_rdp
     \<lparr>ssize = 12, p = 0, data = [3, 0, 0, 12, 2, 0xF0, 0x80, 0x20, 0x00, 1, 2, 3]\<rparr>
     0 0 0 0 0 =
     Some (False,
       demo_rdp\<lparr>disconnect := True,
                console := console demo_rdp @ [''rdp_recv_tpkt_pdu: disconnect'']\<rparr>,
       \<lparr>ssize = 12, p = 9, data = [3, 0, 0, 12, 2, 0xF0, 0x80, 0x20, 0x00, 1, 2, 3]\<rparr>,
       [])"
proof -
  have a: "mcs_read_domain_mcspdu_header demo
      \<lparr>ssize = 12, p = 0, data = [3, 0, 0, 12, 2, 0xF0, 0x80, 0x20, 0x00, 1, 2, 3]\<rparr>
      (if server_mode (settings demo_rdp) then DomainMCSPDU_SendDataRequest
       else DomainMCSPDU_SendDataIndication) 0 =
     Some (True,
       \<lparr>ssize = 12, p = 8, data = [3, 0, 0, 12, 2, 0xF0, 0x80, 0x20, 0x00, 1, 2, 3]\<rparr>,
       DomainMCSPDU_DisconnectProviderUltimatum, 12)"
    by code_simp
  have b: "uint (12 :: uint16) - 8 \<le> stream_get_left
      \<lparr>ssize = 12, p = 8, data = [3, 0, 0, 12, 2, 0xF0, 0x80, 0x20, 0x00, 1, 2, 3]\<rparr>"
    by (simp add: stream_get_left_def)
  have c: "per_read_enumerated demo
      \<lparr>ssize = 12, p = 8, data = [3, 0, 0, 12, 2, 0xF0, 0x80, 0x20, 0x00, 1, 2, 3]\<rparr> 0 0 =
     Some (True,
       \<lparr>ssize = 12, p = 9, data = [3, 0, 0, 12, 2, 0xF0, 0x80, 0x20, 0x00, 1, 2, 3]\<rparr>, 0)"
    by code_simp
  from disconnect_provider_ultimatum [OF a b c, of 0 demo_locals 0 0 0]
  show ?thesis by blast
qed

subsection \<open>Memory regions\<close>


lemma length_mem_write:
  "off + length bs \<le> length m \<Longrightarrow> length (mem_write m off bs) = length m"
  by (simp add: mem_write_def)

lemma mem_read_mem_write_same:
  "off + length bs \<le> length m \<Longrightarrow> n = length bs \<Longrightarrow>
   mem_read (mem_write m off bs) off n = bs"
  by (simp add: mem_write_def mem_read_def)




subsection \<open>Decryption in legacy mode\<close>



subsection \<open>Decryption in FIPS mode\<close>

text \<open>
  In FIPS mode \<open>rdp_decrypt\<close> returns failure when the cipher or the signature check
  does, and \<open>rdp_recv_tpkt_pdu\<close> returns failure when \<open>rdp_decrypt\<close> does; the
  result of \<open>rdp_recv_fastpath_pdu\<close> does not depend on that of \<open>rdp_decrypt\<close>.
\<close>

lemma rdp_decrypt_fips_cipher_failure:
  assumes "encryption_method (settings rdp) = ENCRYPTION_METHOD_FIPS"
    and "\<And>bs r. \<not> fst (security_fips_decrypt c bs r)"
    and "rdp_decrypt c rdp s len securityFlags = Some (ok, rdp', s')"
  shows "\<not> ok"
  using assms(1,3) assms(2)
  by (auto simp: rdp_decrypt_def LLOGLN_def LLOG_LEVEL_def Let_def
      split: bind_splits prod.splits if_splits) (metis fst_conv)+

lemma rdp_decrypt_fips_signature_failure:
  assumes "encryption_method (settings rdp) = ENCRYPTION_METHOD_FIPS"
    and "\<And>body wsig r. \<not> fst (security_fips_check_signature c body wsig r)"
    and "rdp_decrypt c rdp s len securityFlags = Some (ok, rdp', s')"
  shows "\<not> ok"
  using assms(1,3) assms(2)
  by (auto simp: rdp_decrypt_def LLOGLN_def LLOG_LEVEL_def Let_def
      split: bind_splits prod.splits if_splits) (metis fst_conv)+

lemma rdp_recv_tpkt_pdu_decrypt_failure:
  assumes "rdp_read_header c rdp s length0 channelId0 = Some (True, rdp1, s1, len, channelId)"
    and "\<not> disconnect rdp1"
    and "encryption (settings rdp1)"
    and "rdp_read_security_header s1 = Some (securityFlags, s2)"
    and "securityFlags AND (SEC_ENCRYPT OR SEC_REDIRECTION_PKT) \<noteq> 0"
    and "rdp_decrypt c rdp1 s2 (uint len - 4) securityFlags = Some (False, rdp2, s3)"
  shows "rdp_recv_tpkt_pdu c l rdp s length0 channelId0 pduLength0 pduType0 pduSource0 =
           Some (False, LLOGLN 0 ''rdp_decrypt failed'' rdp2, s3, [])"
  using assms by (simp add: rdp_recv_tpkt_pdu_def LLOGLN_def LLOG_LEVEL_def)

lemma rdp_recv_fastpath_pdu_drops_decrypt_result:
  assumes "fastpath_read_header_rdp c (fastpath rdp) s = (len, fp, s1)"
    and "len \<noteq> 0" and "uint len \<le> stream_get_left s1"
    and "encryptionFlags fp AND FASTPATH_OUTPUT_ENCRYPTED \<noteq> 0"
    and "rdp_decrypt c (rdp\<lparr>fastpath := fp\<rparr>) s1 (uint len)
           (if encryptionFlags fp AND FASTPATH_OUTPUT_SECURE_CHECKSUM \<noteq> 0
            then SEC_SECURE_CHECKSUM else 0) = Some (ok, rdp2, s2)"
  shows "rdp_recv_fastpath_pdu c rdp s = Some (fastpath_recv_updates c rdp2 s2)"
  using assms by (simp add: rdp_recv_fastpath_pdu_def LLOGLN_def LLOG_LEVEL_def Let_def)

text \<open>
  C1. In FIPS mode a failure of the cipher makes \<open>rdp_decrypt\<close> return failure, and the
  TPKT path returns failure with it; the fast path drops the result of \<open>rdp_decrypt\<close>
  and returns what \<open>fastpath_recv_updates\<close> returns. The same frame body, on a session
  in FIPS mode with a cipher that fails: failure from \<open>rdp_decrypt\<close> and from
  \<open>rdp_recv_tpkt_pdu\<close>, success from \<open>rdp_recv_fastpath_pdu\<close>, which hands the
  undecrypted bytes to the update handler.
\<close>

theorem fastpath_fips_failure_not_fatal:
  "rdp_decrypt demo_fips_fail (demo_fips_rdp\<lparr>fastpath := \<lparr>encryptionFlags = 2\<rparr>\<rparr>)
     \<lparr>ssize = 22, p = 2, data = fips_fastpath_frame\<rparr> 20 0 =
     Some (False,
       demo_fips_rdp\<lparr>fastpath := \<lparr>encryptionFlags = 2\<rparr>,
                      console := [''FATAL: cannot decrypt'']\<rparr>,
       \<lparr>ssize = 22, p = 14, data = fips_fastpath_frame\<rparr>) \<and>
   rdp_recv_tpkt_pdu demo_fips_fail demo_locals demo_fips_rdp
     \<lparr>ssize = 39, p = 0, data = fips_tpkt_frame\<rparr> 0 0 0 0 0 =
     Some (False,
       demo_fips_rdp\<lparr>console := [''FATAL: cannot decrypt'', ''rdp_decrypt failed'']\<rparr>,
       \<lparr>ssize = 39, p = 31, data = fips_tpkt_frame\<rparr>, []) \<and>
   rdp_recv_fastpath_pdu demo_fips_fail demo_fips_rdp
     \<lparr>ssize = 22, p = 0, data = fips_fastpath_frame\<rparr> =
     Some (True,
       demo_fips_rdp\<lparr>fastpath := \<lparr>encryptionFlags = 2\<rparr>,
                      console := [''FATAL: cannot decrypt''],
                      world := \<lparr>wire = [], calls = [(''fastpath_recv_updates'', 14)]\<rparr>\<rparr>,
       \<lparr>ssize = 22, p = 14, data = fips_fastpath_frame\<rparr>)"
  by code_simp


subsection \<open>Bytes written and read back\<close>

lemma mem_write_mem_write_adjacent:
  "off + length a \<le> length m \<Longrightarrow>
   mem_write (mem_write m off a) (off + length a) b = mem_write m off (a @ b)"
  by (simp add: mem_write_def ac_simps)

lemma stream_write_bind:
  "stream_write s a \<bind> (\<lambda>s1. stream_write s1 b) = stream_write s (a @ b)"
  by (auto simp: stream_write_def stream_region_ok_def length_mem_write
      mem_write_mem_write_adjacent add.assoc)

lemma stream_write_bind2:
  "stream_write s a \<bind> (\<lambda>s1. stream_write s1 b \<bind> f) = stream_write s (a @ b) \<bind> f"
  by (metis Option.bind_assoc stream_write_bind)

lemmas write_defs = stream_write_uint8_def stream_write_uint16_def stream_write_uint16_be_def
  stream_write_uint32_def

lemma rdp_write_share_control_header_bytes:
  "rdp_write_share_control_header s length0 type channel_id =
     stream_write s (bytes_le16 (length0 - 15) @ bytes_le16 (type OR 0x10) @ bytes_le16 channel_id)"
  by (simp add: rdp_write_share_control_header_def write_defs stream_write_bind
      RDP_PACKET_HEADER_MAX_LENGTH_def Let_def)

lemma rdp_write_share_data_header_bytes:
  "rdp_write_share_data_header s length0 type sid =
     stream_write s (bytes_le32 sid @ [0, 1] @ bytes_le16 (length0 - 33) @ [type, 0] @ bytes_le16 0)"
  by (simp add: rdp_write_share_data_header_def write_defs stream_write_bind stream_write_bind2
      RDP_PACKET_HEADER_MAX_LENGTH_def RDP_SHARE_CONTROL_HEADER_LENGTH_def
      RDP_SHARE_DATA_HEADER_LENGTH_def STREAM_LOW_def Let_def)

lemma rdp_write_header_bytes:
  assumes "spec_framing c" and "sec_flags rdp = 0"
  shows "rdp_write_header c rdp s len channel_id =
     stream_write s ([0x03, 0x00] @ bytes_be16 len @ [0x02, 0xF0, 0x80,
        (if server_mode (settings rdp) then 0x68 else 0x64)] @
        bytes_be16 (user_id (mcs rdp) - 1001) @ bytes_be16 channel_id @ [0x70] @
        bytes_be16 ((len - 15) OR 0x8000))"
  using assms
  by (simp add: rdp_write_header_def rdp_write_header_length_def spec_framing_def
      spec_mcs_write_domain_mcspdu_header_def
      spec_per_write_integer16_def write_defs stream_write_bind stream_write_bind2
      RDP_PACKET_HEADER_MAX_LENGTH_def MCS_BASE_CHANNEL_ID_def Let_def
      DomainMCSPDU_SendDataIndication_def DomainMCSPDU_SendDataRequest_def)

lemma le16_or: "le16 b0 b1 = ucast b0 OR push_bit 8 (ucast b1)"
  unfolding le16_def
  by (rule disjunctive_add) (auto simp: bit_simps dest: bit_imp_le_length)

lemma bit_int_8000: "bit (0x8000 :: int) n \<longleftrightarrow> n = 15"
proof -
  have e: "(0x8000 :: int) = 2 ^ 15" by simp
  show ?thesis unfolding e bit_exp_iff by auto
qed

lemma bit_int_80: "bit (0x80 :: int) n \<longleftrightarrow> n = 7"
proof -
  have e: "(0x80 :: int) = 2 ^ 7" by simp
  show ?thesis unfolding e bit_exp_iff by auto
qed

lemma bit_int_7F: "bit (0x7F :: int) n \<longleftrightarrow> n < 7"
proof -
  have e: "(0x7F :: int) = mask 7" by (simp add: mask_eq_exp_minus_1)
  show ?thesis unfolding e bit_mask_iff by auto
qed

lemma bit_int_FF: "bit (0xFF :: int) n \<longleftrightarrow> n < 8"
proof -
  have e: "(0xFF :: int) = mask 8" by (simp add: mask_eq_exp_minus_1)
  show ?thesis unfolding e bit_mask_iff by auto
qed

lemmas bit_int_consts = bit_int_8000 bit_int_80 bit_int_7F bit_int_FF

lemma le16_bytes: "le16 (ucast (v AND 0xFF)) (ucast (drop_bit 8 v AND 0xFF)) = v"
  unfolding le16_or
  by (rule bit_word_eqI) (auto simp: bit_simps bit_int_consts)



lemma high_bit: "(ucast (drop_bit 8 (v OR 0x8000) AND 0xFF :: uint16) :: uint8) AND 0x80 \<noteq> 0"
proof -
  have "bit ((ucast (drop_bit 8 (v OR 0x8000) AND 0xFF :: uint16) :: uint8) AND 0x80) 7"
    by (simp add: bit_simps bit_int_consts)
  then show ?thesis by (metis bit_0_eq bot_apply bot_bool_def)
qed

lemma not_bit15: "v < 0x8000 \<Longrightarrow> \<not> bit (v :: uint16) 15"
proof -
  assume "v < 0x8000"
  then have "v < 2 ^ 15" by simp
  then have "v AND mask 15 = v" by (rule less_mask_eq)
  then have "bit v 15 \<longleftrightarrow> bit (v AND mask 15) 15" by simp
  then show ?thesis by (simp add: bit_simps)
qed

lemma len_dec:
  assumes "v < 0x8000"
  shows "push_bit 8 (ucast ((ucast (drop_bit 8 (v OR 0x8000) AND 0xFF) :: uint8) AND 0x7F)) +
         ucast (ucast ((v OR 0x8000) AND 0xFF) :: uint8) = (v :: uint16)"
proof -
  have "push_bit 8 (ucast ((ucast (drop_bit 8 (v OR 0x8000) AND 0xFF) :: uint8) AND 0x7F)) +
         ucast (ucast ((v OR 0x8000) AND 0xFF) :: uint8) =
        push_bit 8 (ucast ((ucast (drop_bit 8 (v OR 0x8000) AND 0xFF) :: uint8) AND 0x7F)) OR
         (ucast (ucast ((v OR 0x8000) AND 0xFF) :: uint8) :: uint16)"
    by (rule disjunctive_add) (auto simp: bit_simps dest: bit_imp_le_length)
  also have "\<dots> = v"
  proof -
    have lt: "n < 15" if "bit v n" for n
      using that not_bit15 [OF assms] bit_imp_le_length [of v n]
      by (cases "n = 15") auto
    show ?thesis
      by (intro bit_word_eqI) (auto simp: bit_simps bit_int_consts dest: lt)
  qed
  finally show ?thesis .
qed

lemma length_bytes [simp]:
  "length (bytes_be16 v) = 2" "length (bytes_le16 v) = 2" "length (bytes_le32 w) = 4"
  by (simp_all add: bytes_be16_def bytes_le16_def bytes_le32_def)

lemma length_wire [simp]:
  "length (wire_mcs_header sv len i ch) = 15"
  "length (wire_share_control_header t ty so) = 6"
  by (simp_all add: wire_mcs_header_def wire_share_control_header_def)









lemma be16_nth [simp]: "le16 (bytes_be16 v ! Suc 0) (bytes_be16 v ! 0) = v"
  by (simp add: bytes_be16_def le16_bytes)

lemma le16_nth [simp]: "le16 (bytes_le16 v ! 0) (bytes_le16 v ! Suc 0) = v"
  by (simp add: bytes_le16_def le16_bytes)

lemma be16_len_high [simp]: "bytes_be16 (v OR 0x8000) ! 0 AND 0x80 \<noteq> 0"
  using high_bit [of v] by (simp add: bytes_be16_def)

lemma be16_len_dec [simp]:
  "v < 0x8000 \<Longrightarrow>
   push_bit 8 (ucast (bytes_be16 (v OR 0x8000) ! 0 AND 0x7F)) + ucast (bytes_be16 (v OR 0x8000) ! Suc 0) = v"
  using len_dec [of v] by (simp add: bytes_be16_def)




lemma ucast_16_32_16 [simp]: "(ucast (ucast (x :: uint16) :: uint32) :: uint16) = x"
  by (rule bit_word_eqI) (auto simp: bit_simps)

lemma rdp_security_stream_out_plain:
  "sec_flags rdp = 0 \<Longrightarrow> rdp_security_stream_out c rdp s n = Some (0, rdp, s)"
  by (simp add: rdp_security_stream_out_def)


subsection \<open>Round trip of a PDU\<close>

lemma take_mem_write_0:
  assumes "length hs = k" and "k \<le> length m"
  shows "take (k + n) (mem_write m 0 hs) = hs @ mem_read m k n"
  using assms by (simp add: mem_write_def mem_read_def)





subsection \<open>Frame acknowledge\<close>

lemma length_wire_sd [simp]: "length (wire_share_data_header a b c) = 12"
  by (simp add: wire_share_data_header_def)

lemma rdp_send_data_pdu_plain:
  assumes "spec_framing c" and "sec_flags rdp = 0" and "stream_region_ok s 0 33"
    and "p s < 65536"
  shows "rdp_send_data_pdu c rdp s type ch =
     (let s' = s\<lparr>data := mem_write (data s) 0
                 (wire_mcs_header (server_mode (settings rdp)) (of_nat (p s))
                    (user_id (mcs rdp)) 1003 @
                  wire_share_control_header (of_nat (p s) - 15) PDU_TYPE_DATA ch @
                  wire_share_data_header (share_id (settings rdp)) (of_nat (p s) - 33) type)\<rparr>;
          (r, w) = transport_write c (world rdp) s'
      in Some (\<not> r < 0, rdp\<lparr>world := w\<rparr>, s'))"
proof -
  let ?H = "wire_mcs_header (server_mode (settings rdp)) (of_nat (p s)) (user_id (mcs rdp)) 1003"
  let ?SC = "wire_share_control_header (of_nat (p s) - 15) PDU_TYPE_DATA ch"
  let ?SD = "wire_share_data_header (share_id (settings rdp)) (of_nat (p s) - 33) type"
  have len: "33 \<le> length (data s)" "33 \<le> ssize s"
    using assms(3) by (simp_all add: stream_region_ok_def)
  have h1: "rdp_write_header c rdp (s\<lparr>p := 0\<rparr>) (of_nat (p s)) MCS_GLOBAL_CHANNEL_ID =
      Some (s\<lparr>data := mem_write (data s) 0 ?H, p := 15\<rparr>)"
    using assms(1,2) len
    by (simp add: rdp_write_header_bytes wire_mcs_header_def MCS_GLOBAL_CHANNEL_ID_def
        stream_write_def stream_region_ok_def)
  have h2: "rdp_write_share_control_header (s\<lparr>data := mem_write (data s) 0 ?H, p := 15\<rparr>)
        (of_nat (p s)) PDU_TYPE_DATA ch =
      Some (s\<lparr>data := mem_write (data s) 0 (?H @ ?SC), p := 21\<rparr>)"
    using len mem_write_mem_write_adjacent [of 0 ?H "data s" ?SC]
    by (simp add: rdp_write_share_control_header_bytes wire_share_control_header_def
        stream_write_def stream_region_ok_def length_mem_write)
  have h3: "rdp_write_share_data_header (s\<lparr>data := mem_write (data s) 0 (?H @ ?SC), p := 21\<rparr>)
        (of_nat (p s)) type (share_id (settings rdp)) =
      Some (s\<lparr>data := mem_write (data s) 0 (?H @ ?SC @ ?SD), p := 33\<rparr>)"
    using len mem_write_mem_write_adjacent [of 0 "?H @ ?SC" "data s" ?SD]
    by (simp add: rdp_write_share_data_header_bytes wire_share_data_header_def
        stream_write_def stream_region_ok_def length_mem_write)
  have u: "unat (word_of_nat (p s) :: uint16) = p s"
    using assms(4) by (simp add: unat_of_nat)
  show ?thesis
    using assms(2) h1 h2 h3 u
    by (simp add: rdp_send_data_pdu_def Let_def stream_get_length_def stream_set_pos_def
        rdp_get_sec_bytes_def stream_seek_def rdp_security_stream_out_plain
        split: prod.splits)
qed

text \<open>
  C10. \<open>rdp_send_frame_ack\<close> returns 0 whenever it returns. With
  \<open>settings->frame_acknowledge\<close> equal to 0 it does nothing else: the session is
  unchanged and no stream is built or sent. Otherwise it writes the frame value as 32 bits
  into the stream of \<open>rdp_data_pdu_init\<close> and sends it with \<open>rdp_send_data_pdu\<close>,
  type 56, with the user id of the session as channel argument. On a session without
  encryption and with the framing helpers modelled from the specification, the frame handed
  to the transport is the MCS header on the global channel, a Share Control header of type
  DATA whose pduSource is the user id, a Share Data header of type 56, and the four bytes
  of the frame value.
\<close>

theorem frame_ack:
  "(frame_acknowledge (settings rdp) = 0 \<longrightarrow>
      rdp_send_frame_ack c rdp frame = Some (0, rdp, None)) \<and>
   (frame_acknowledge (settings rdp) \<noteq> 0 \<longrightarrow>
      rdp_send_frame_ack c rdp frame =
        (case stream_write_uint32 (snd (rdp_data_pdu_init c rdp)) (word_of_int frame) of
           None \<Rightarrow> None
         | Some s1 \<Rightarrow>
             (case rdp_send_data_pdu c (fst (rdp_data_pdu_init c rdp)) s1 56 (user_id (mcs rdp)) of
                None \<Rightarrow> None
              | Some (ok, rdp2, s2) \<Rightarrow> Some (0, rdp2, Some s2)))) \<and>
   (rdp_send_frame_ack c rdp frame = Some (r, rdp', sent) \<longrightarrow> r = 0) \<and>
   (frame_acknowledge (settings rdp) \<noteq> 0 \<and> spec_framing c \<and> \<not> do_crypt rdp \<and>
    sec_flags rdp = 0 \<and> p (transport_send_stream_init c (world rdp) 2048) = 0 \<and>
    stream_region_ok (transport_send_stream_init c (world rdp) 2048) 0 37 \<longrightarrow>
      (\<exists>w s2. rdp_send_frame_ack c rdp frame = Some (0, rdp\<lparr>world := w\<rparr>, Some s2) \<and>
         sent_frame s2 =
           wire_mcs_header (server_mode (settings rdp)) 37 (user_id (mcs rdp)) 1003 @
           wire_share_control_header 22 PDU_TYPE_DATA (user_id (mcs rdp)) @
           wire_share_data_header (share_id (settings rdp)) 4 56 @
           bytes_le32 (word_of_int frame)))"
proof -
  have a: "frame_acknowledge (settings rdp) = 0 \<longrightarrow>
      rdp_send_frame_ack c rdp frame = Some (0, rdp, None)"
    by (simp add: rdp_send_frame_ack_def)
  have user: "user_id (mcs (fst (rdp_data_pdu_init c rdp))) = user_id (mcs rdp)"
    by (simp add: rdp_data_pdu_init_def rdp_security_stream_init_def Let_def split: prod.splits)
  have b: "frame_acknowledge (settings rdp) \<noteq> 0 \<longrightarrow>
      rdp_send_frame_ack c rdp frame =
        (case stream_write_uint32 (snd (rdp_data_pdu_init c rdp)) (word_of_int frame) of
           None \<Rightarrow> None
         | Some s1 \<Rightarrow>
             (case rdp_send_data_pdu c (fst (rdp_data_pdu_init c rdp)) s1 56 (user_id (mcs rdp)) of
                None \<Rightarrow> None
              | Some (ok, rdp2, s2) \<Rightarrow> Some (0, rdp2, Some s2)))"
    using user
    by (auto simp: rdp_send_frame_ack_def Let_def split: prod.splits option.splits bind_splits)
  have z: "rdp_send_frame_ack c rdp frame = Some (r, rdp', sent) \<longrightarrow> r = 0"
    by (auto simp: rdp_send_frame_ack_def Let_def split: prod.splits if_splits bind_splits)
  have d: "\<exists>w s2. rdp_send_frame_ack c rdp frame = Some (0, rdp\<lparr>world := w\<rparr>, Some s2) \<and>
         sent_frame s2 =
           wire_mcs_header (server_mode (settings rdp)) 37 (user_id (mcs rdp)) 1003 @
           wire_share_control_header 22 PDU_TYPE_DATA (user_id (mcs rdp)) @
           wire_share_data_header (share_id (settings rdp)) 4 56 @
           bytes_le32 (word_of_int frame)"
    if h: "frame_acknowledge (settings rdp) \<noteq> 0" "spec_framing c" "\<not> do_crypt rdp"
      "sec_flags rdp = 0" "p (transport_send_stream_init c (world rdp) 2048) = 0"
      "stream_region_ok (transport_send_stream_init c (world rdp) 2048) 0 37"
  proof -
    let ?s0 = "transport_send_stream_init c (world rdp) 2048"
    let ?B = "bytes_le32 (word_of_int frame)"
    let ?s1 = "?s0\<lparr>data := mem_write (data ?s0) 33 ?B, p := 37\<rparr>"
    let ?HS = "wire_mcs_header (server_mode (settings rdp)) 37 (user_id (mcs rdp)) 1003 @
           wire_share_control_header 22 PDU_TYPE_DATA (user_id (mcs rdp)) @
           wire_share_data_header (share_id (settings rdp)) 4 56"
    have len: "37 \<le> length (data ?s0)" "37 \<le> ssize ?s0"
      using h(6) by (simp_all add: stream_region_ok_def)
    have init: "rdp_data_pdu_init c rdp = (rdp, ?s0\<lparr>p := 33\<rparr>)"
      using h(3,4,5)
      by (simp add: rdp_data_pdu_init_def rdp_security_stream_init_def Let_def stream_seek_def
          RDP_PACKET_HEADER_MAX_LENGTH_def RDP_SHARE_CONTROL_HEADER_LENGTH_def
          RDP_SHARE_DATA_HEADER_LENGTH_def)
    have wr: "stream_write_uint32 (?s0\<lparr>p := 33\<rparr>) (word_of_int frame) = Some ?s1"
      using len by (simp add: stream_write_uint32_def stream_write_def stream_region_ok_def)
    have reg: "stream_region_ok ?s1 0 33"
      using len by (simp add: stream_region_ok_def length_mem_write)
    note sd = rdp_send_data_pdu_plain [OF h(2) h(4) reg, of 56 "user_id (mcs rdp)"]
    let ?s2 = "?s1\<lparr>data := mem_write (data ?s1) 0 ?HS\<rparr>"
    have sd': "rdp_send_data_pdu c rdp ?s1 56 (user_id (mcs rdp)) =
       Some (\<not> fst (transport_write c (world rdp) ?s2) < 0,
         rdp\<lparr>world := snd (transport_write c (world rdp) ?s2)\<rparr>, ?s2)"
      using sd by (simp add: Let_def split: prod.splits)
    have run: "rdp_send_frame_ack c rdp frame =
       Some (0, rdp\<lparr>world := snd (transport_write c (world rdp) ?s2)\<rparr>, Some ?s2)"
      using h(1) init wr sd' by (simp add: rdp_send_frame_ack_def)
    have "sent_frame ?s2 = take (33 + 4) (mem_write (mem_write (data ?s0) 33 ?B) 0 ?HS)"
      by (simp add: sent_frame_def)
    also have "\<dots> = ?HS @ mem_read (mem_write (data ?s0) 33 ?B) 33 4"
      using len by (intro take_mem_write_0) (simp_all add: length_mem_write)
    also have "mem_read (mem_write (data ?s0) 33 ?B) 33 4 = ?B"
      using len by (intro mem_read_mem_write_same) simp_all
    finally have "sent_frame ?s2 = ?HS @ ?B" .
    with run show ?thesis by auto
  qed
  from a b z d show ?thesis by blast
qed

theorem frame_ack_witness:
  "rdp_send_frame_ack demo demo_rdp 0x01020304 = Some (0, demo_rdp, None) \<and>
   rdp_send_frame_ack demo demo_ack_rdp 0x01020304 =
     Some (0, demo_ack_rdp\<lparr>world := \<lparr>wire = [ack_frame], calls = []\<rparr>\<rparr>,
           Some \<lparr>ssize = 2048, p = 37, data = ack_frame @ replicate 2011 0\<rparr>) \<and>
   ack_frame =
     wire_mcs_header False 37 1007 1003 @ wire_share_control_header 22 PDU_TYPE_DATA 1007 @
     wire_share_data_header 0xDEADBEEF 4 56 @ bytes_le32 0x01020304"
proof -
  have off: "frame_acknowledge (settings demo_rdp) = 0"
    by (simp add: demo_rdp_def demo_settings_def)
  have on: "frame_acknowledge (settings demo_ack_rdp) \<noteq> 0 \<and> spec_framing demo \<and>
      \<not> do_crypt demo_ack_rdp \<and> sec_flags demo_ack_rdp = 0 \<and>
      p (transport_send_stream_init demo (world demo_ack_rdp) 2048) = 0 \<and>
      stream_region_ok (transport_send_stream_init demo (world demo_ack_rdp) 2048) 0 37"
    by (simp add: demo_ack_rdp_def demo_rdp_def demo_settings_def spec_framing_def demo_def
        stream_region_ok_def)
  have run: "rdp_send_frame_ack demo demo_ack_rdp 0x01020304 =
     Some (0, demo_ack_rdp\<lparr>world := \<lparr>wire = [ack_frame], calls = []\<rparr>\<rparr>,
           Some \<lparr>ssize = 2048, p = 37, data = ack_frame @ replicate 2011 0\<rparr>)"
    by code_simp
  have fr: "sent_frame \<lparr>ssize = 2048, p = 37, data = ack_frame @ replicate 2011 0\<rparr> = ack_frame"
    by (simp add: sent_frame_def ack_frame_def)
  note t1 = frame_ack [of demo_rdp demo "0x01020304" 0 demo_rdp None]
  note t2 = frame_ack [of demo_ack_rdp demo "0x01020304" 0 demo_ack_rdp None]
  from t1 off have noop: "rdp_send_frame_ack demo demo_rdp 0x01020304 = Some (0, demo_rdp, None)"
    by blast
  from t2 on obtain w s2 where
    "rdp_send_frame_ack demo demo_ack_rdp 0x01020304 =
       Some (0, demo_ack_rdp\<lparr>world := w\<rparr>, Some s2)"
    and bytes: "sent_frame s2 =
       wire_mcs_header (server_mode (settings demo_ack_rdp)) 37 (user_id (mcs demo_ack_rdp)) 1003 @
       wire_share_control_header 22 PDU_TYPE_DATA (user_id (mcs demo_ack_rdp)) @
       wire_share_data_header (share_id (settings demo_ack_rdp)) 4 56 @
       bytes_le32 (word_of_int 0x01020304)"
    by blast
  with run have "s2 = \<lparr>ssize = 2048, p = 37, data = ack_frame @ replicate 2011 0\<rparr>"
    by simp
  with bytes fr have "ack_frame =
     wire_mcs_header False 37 1007 1003 @ wire_share_control_header 22 PDU_TYPE_DATA 1007 @
     wire_share_data_header 0xDEADBEEF 4 56 @ bytes_le32 0x01020304"
    by (simp add: demo_ack_rdp_def demo_rdp_def demo_settings_def)
  with noop run show ?thesis by blast
qed


subsection \<open>The pad of FIPS mode\<close>











subsection \<open>The Share Control PDUs of one envelope\<close>







end
